theory Spec2Isabelle
  imports Complex_Main "HOL-Library.Sublist"
begin

section \<open>Values, errors and tables\<close>

text \<open>
  Python text is modelled as \<^typ>\<open>string\<close>, read as the UTF-8 bytes of the text; the
  methods that look at character classes (\<open>strip\<close>, \<open>lower\<close>, \<open>upper\<close>) are modelled
  on the ASCII range and carry every other byte unchanged. A float is an exact real
  number, with the infinities and \<open>nan\<close> as separate values. A raised exception is the
  value \<open>Error m\<close>, where \<open>m\<close> is what \<open>str(e)\<close> gives.
\<close>

datatype error = Error string

fun str_of_error :: "error \<Rightarrow> string" where
  "str_of_error (Error m) = m"

datatype val =
    VNone
  | VNaN
  | VBool bool
  | VInt int
  | VFloat real
  | VInf bool
  | VStr string
  | VDate int
  | VDict "(string \<times> val) list"

text \<open>
  A DataFrame is its ordered list of named columns; every column holds one value per
  row. \<open>df.empty\<close> is true when either axis has length zero.
\<close>

type_synonym dataframe = "(string \<times> val list) list"

definition columns :: "dataframe \<Rightarrow> string list" where
  "columns df = map fst df"

definition nrows :: "dataframe \<Rightarrow> nat" where
  "nrows df = (case df of [] \<Rightarrow> 0 | c # _ \<Rightarrow> length (snd c))"

definition df_empty :: "dataframe \<Rightarrow> bool" where
  "df_empty df = (df = [] \<or> nrows df = 0)"

section \<open>Schemas\<close>

text \<open>
  \<open>TargetColumn\<close> and \<open>TargetSchema\<close>, with the fields that the matcher and the
  orchestrator read.
\<close>

record TargetColumn =
  tc_name :: string
  data_type :: string
  required :: bool
  common_source_names :: "string list"

record TargetSchema =
  ts_name :: string
  ts_columns :: "TargetColumn list"
  unique_columns :: "string list"
  required_columns :: "string list"

definition GENERIC_CUSTOMER_SCHEMA :: TargetSchema where
  "GENERIC_CUSTOMER_SCHEMA = \<lparr>
     ts_name = ''Generic_Customer'',
     ts_columns = [
       \<lparr>tc_name = ''first_name'', data_type = ''string'', required = True,
        common_source_names = [''fname'', ''first'', ''first_name'', ''firstname'', ''name'',
                               ''cust_name'', ''customer_name'']\<rparr>,
       \<lparr>tc_name = ''last_name'', data_type = ''string'', required = False,
        common_source_names = [''lname'', ''last'', ''last_name'', ''lastname'', ''surname'']\<rparr>,
       \<lparr>tc_name = ''email'', data_type = ''email'', required = False,
        common_source_names = [''email'', ''email_id'', ''mail'', ''e-mail'', ''emailid'']\<rparr>,
       \<lparr>tc_name = ''phone'', data_type = ''phone'', required = False,
        common_source_names = [''phone'', ''mobile'', ''contact'', ''mobile_no'', ''phone_no'',
                               ''mob'', ''cell'']\<rparr>,
       \<lparr>tc_name = ''address'', data_type = ''string'', required = False,
        common_source_names = [''address'', ''addr'', ''street'', ''location'', ''address1'']\<rparr>,
       \<lparr>tc_name = ''city'', data_type = ''string'', required = False,
        common_source_names = [''city'', ''town'', ''district'']\<rparr>,
       \<lparr>tc_name = ''state'', data_type = ''string'', required = False,
        common_source_names = [''state'', ''province'', ''region'']\<rparr>,
       \<lparr>tc_name = ''pincode'', data_type = ''string'', required = False,
        common_source_names = [''pincode'', ''pin'', ''zip'', ''postal_code'', ''zipcode'']\<rparr>,
       \<lparr>tc_name = ''country'', data_type = ''string'', required = False,
        common_source_names = [''country'', ''nation'']\<rparr>,
       \<lparr>tc_name = ''gstin'', data_type = ''string'', required = False,
        common_source_names = [''gstin'', ''gst'', ''gst_no'', ''gstno'', ''gst_number'']\<rparr>],
     unique_columns = [''email'', ''gstin''],
     required_columns = [''first_name'']\<rparr>"

subsection \<open>Plans, reports and detection results\<close>

text \<open>
  Modelled from the spec: the classes of \<open>schemas/transformation_plan.py\<close>,
  \<open>schemas/validation_report.py\<close>, \<open>schemas/source_schema.py\<close> and
  \<open>schemas/detected_table.py\<close>, with the fields that the orchestrator, the engine and
  the matcher read. An optional string that the code tests for truth is an option; an
  optional list is a list, empty when absent.
\<close>

datatype Action = Direct | Transform | Skip

record ColumnMapping =
  source_col :: string
  target_col :: string
  action :: Action
  transform_id :: "string option"

record Transformation =
  t_id :: string
  t_function :: string
  input_col :: "string option"
  input_cols :: "string list"
  output_col :: "string option"
  output_cols :: "string list"
  t_params :: "(string \<times> val) list"

record Enrichment =
  e_id :: string
  trigger_col :: string
  target_cols :: "string list"
  api_service :: string
  e_params :: "(string \<times> val) list"

record TransformationPlan =
  confidence_score :: real
  column_mappings :: "ColumnMapping list"
  transformations :: "Transformation list"
  enrichments :: "Enrichment list"
  warnings :: "string list"
  requires_user_input :: bool
  user_questions :: "string list"

record ValidationReport =
  quality_score :: real
  vr_status :: string

record SourceSchemaAnalysis =
  sa_columns :: "string list"
  total_rows :: nat
  total_columns :: nat
  overall_quality :: string

record DetectedTable =
  table_id :: string
  column_names :: "string list"
  sample_values :: "(string \<times> string list) list"
  header_row :: nat

record MultiTableAnalysis =
  tables :: "DetectedTable list"

record TableMatch =
  m_table_id :: string
  m_target_schema_name :: string
  match_score :: real
  matched_columns :: "(string \<times> string) list"
  unmatched_source_cols :: "string list"
  unmatched_target_cols :: "string list"

record TableMatchingResult =
  matches :: "TableMatch list"
  best_match_table_id :: "string option"
  user_prompt :: "string option"

text \<open>
  Modelled from the spec: the methods of the detection results, which are in
  \<open>schemas/detected_table.py\<close>. Tables scoring at least 0.7 are the good matches; the
  best match is the match of the recorded best table; a table is found by its id.
\<close>

definition get_good_matches :: "TableMatchingResult \<Rightarrow> TableMatch list" where
  "get_good_matches r = filter (\<lambda>m. match_score m \<ge> 7 / 10) (matches r)"

definition get_best_match :: "TableMatchingResult \<Rightarrow> TableMatch option" where
  "get_best_match r =
     (case best_match_table_id r of
        None \<Rightarrow> None
      | Some i \<Rightarrow> find (\<lambda>m. m_table_id m = i) (matches r))"

definition get_table_by_id :: "MultiTableAnalysis \<Rightarrow> string \<Rightarrow> DetectedTable option" where
  "get_table_by_id a i = find (\<lambda>t. table_id t = i) (tables a)"

text \<open>Python's truth test of an optional string: \<open>None\<close> and \<open>""\<close> are false.\<close>

fun truthy :: "string option \<Rightarrow> bool" where
  "truthy None = False"
| "truthy (Some s) = (s \<noteq> [])"

section \<open>The orchestrator\<close>

datatype JobStatus =
    PENDING
  | DETECTING_TABLES
  | SELECTING_TABLE
  | ANALYZING
  | PLANNING
  | WAITING_FOR_INPUT
  | EXECUTING
  | VALIDATING
  | COMPLETED
  | FAILED

text \<open>
  \<open>TransformationJob\<close>: the attributes set by \<open>__init__\<close>, and the two attributes that
  the stages attach later (\<open>_selected_table_df\<close>, \<open>_result_df\<close>), absent as \<open>None\<close>.
  A timestamp is the reading of a clock that advances at every \<open>datetime.now()\<close>.
\<close>

record TransformationJob =
  job_id :: string
  source_file :: string
  target_schema_name :: string
  status :: JobStatus
  created_at :: nat
  updated_at :: nat
  source_analysis :: "SourceSchemaAnalysis option"
  transformation_plan :: "TransformationPlan option"
  validation_report :: "ValidationReport option"
  output_file :: "string option"
  pending_questions :: "string list"
  user_answers :: "(string \<times> string) list"
  multi_table_analysis :: "MultiTableAnalysis option"
  table_matching_result :: "TableMatchingResult option"
  selected_table_id :: "string option"
  error_message :: "string option"
  retry_count :: nat
  max_retries :: nat
  selected_table_df :: "dataframe option"
  result_df :: "dataframe option"

text \<open>The dictionary that \<open>to_dict\<close> builds and \<open>json.dump\<close> writes: one field per key.\<close>

record snapshot =
  d_job_id :: string
  d_source_file :: string
  d_target_schema_name :: string
  d_status :: JobStatus
  d_created_at :: nat
  d_updated_at :: nat
  d_source_analysis :: "SourceSchemaAnalysis option"
  d_transformation_plan :: "TransformationPlan option"
  d_validation_report :: "ValidationReport option"
  d_output_file :: "string option"
  d_pending_questions :: "string list"
  d_user_answers :: "(string \<times> string) list"
  d_error_message :: "string option"
  d_retry_count :: nat

definition new_job :: "string \<Rightarrow> string \<Rightarrow> string \<Rightarrow> nat \<Rightarrow> TransformationJob" where
  "new_job jid src schema t = \<lparr>
     job_id = jid, source_file = src, target_schema_name = schema, status = PENDING,
     created_at = t, updated_at = t,
     source_analysis = None, transformation_plan = None, validation_report = None,
     output_file = None, pending_questions = [], user_answers = [],
     multi_table_analysis = None, table_matching_result = None, selected_table_id = None,
     error_message = None, retry_count = 0, max_retries = 3,
     selected_table_df = None, result_df = None\<rparr>"

definition to_dict :: "TransformationJob \<Rightarrow> snapshot" where
  "to_dict job = \<lparr>
     d_job_id = job_id job,
     d_source_file = source_file job,
     d_target_schema_name = target_schema_name job,
     d_status = status job,
     d_created_at = created_at job,
     d_updated_at = updated_at job,
     d_source_analysis = source_analysis job,
     d_transformation_plan = transformation_plan job,
     d_validation_report = validation_report job,
     d_output_file = output_file job,
     d_pending_questions = pending_questions job,
     d_user_answers = user_answers job,
     d_error_message = error_message job,
     d_retry_count = retry_count job\<rparr>"

text \<open>
  \<open>from_dict\<close> builds a fresh job (at clock reading \<open>t\<close>), then overwrites the fields it
  reads back; of the nested objects it rebuilds the validation report and the plan.
\<close>

definition from_dict :: "nat \<Rightarrow> snapshot \<Rightarrow> TransformationJob" where
  "from_dict t d =
     (let job = new_job (d_job_id d) (d_source_file d) (d_target_schema_name d) t;
          job = job\<lparr>status := d_status d\<rparr>;
          job = job\<lparr>created_at := d_created_at d\<rparr>;
          job = job\<lparr>updated_at := d_updated_at d\<rparr>;
          job = job\<lparr>output_file := d_output_file d\<rparr>;
          job = job\<lparr>pending_questions := d_pending_questions d\<rparr>;
          job = job\<lparr>user_answers := d_user_answers d\<rparr>;
          job = job\<lparr>error_message := d_error_message d\<rparr>;
          job = job\<lparr>retry_count := d_retry_count d\<rparr>;
          job = (case d_validation_report d of
                   None \<Rightarrow> job
                 | Some r \<Rightarrow> job\<lparr>validation_report := Some r\<rparr>);
          job = (case d_transformation_plan d of
                   None \<Rightarrow> job
                 | Some p \<Rightarrow> job\<lparr>transformation_plan := Some p\<rparr>)
      in job)"

subsection \<open>The world around a job\<close>

text \<open>
  The collaborators of the orchestrator (agents, loader, engine, output writer, the
  subprocess and the file system) are taken as they answer: each is a function of the
  clock reading at the call and of its arguments, and returns a value or the exception
  it raises; the output writer is taken together with the file name that the stage
  builds from the source file and the job id. The trace lists, in order, the status assignments and the collaborator
  calls that a run performs.
\<close>

datatype collaborator =
    TableDetector | TableMatcher | Loader | SchemaAnalyst | Planner | Engine
  | Validator | OutputWriter | CodeGenerator | Subprocess

datatype event = SetStatus JobStatus | Invoke collaborator

record completed_process =
  returncode :: int
  stdout :: string
  stderr :: string

record env =
  get_schema :: "string \<Rightarrow> TargetSchema option"
  output_dir :: string
  output_dir_parent :: string
  detector_run :: "nat \<Rightarrow> string \<Rightarrow> error + MultiTableAnalysis"
  matcher_run :: "nat \<Rightarrow> DetectedTable list \<Rightarrow> TargetSchema \<Rightarrow> error + TableMatchingResult"
  extract_table_from_boundary :: "nat \<Rightarrow> string \<Rightarrow> DetectedTable \<Rightarrow> error + dataframe"
  analyst_run :: "nat \<Rightarrow> string \<Rightarrow> error + SourceSchemaAnalysis"
  planner_run :: "nat \<Rightarrow> SourceSchemaAnalysis option \<Rightarrow> TargetSchema \<Rightarrow> error + TransformationPlan"
  load_full :: "nat \<Rightarrow> string \<Rightarrow> error + dataframe"
  engine_execute :: "nat \<Rightarrow> dataframe \<Rightarrow> TransformationPlan option \<Rightarrow> error + dataframe"
  validator_run :: "nat \<Rightarrow> dataframe \<Rightarrow> TargetSchema \<Rightarrow> error + ValidationReport"
  output_generate :: "nat \<Rightarrow> dataframe \<Rightarrow> ValidationReport \<Rightarrow> string \<Rightarrow> string \<Rightarrow> error + string"
  code_generator_run :: "nat \<Rightarrow> string \<Rightarrow> TargetSchema \<Rightarrow> SourceSchemaAnalysis \<Rightarrow> error + string"
  write_script :: "nat \<Rightarrow> string \<Rightarrow> string \<Rightarrow> error option"
  subprocess_run :: "nat \<Rightarrow> string \<Rightarrow> error + completed_process"
  path_exists :: "nat \<Rightarrow> string \<Rightarrow> bool"

record world =
  clock :: nat
  store :: "string \<Rightarrow> snapshot option"
  trace :: "event list"

definition tick :: "world \<Rightarrow> world" where
  "tick w = w\<lparr>clock := Suc (clock w)\<rparr>"

definition emit :: "event \<Rightarrow> world \<Rightarrow> world" where
  "emit e w = w\<lparr>trace := trace w @ [e]\<rparr>"

text \<open>Entering a stage: \<open>job.status = s; job.updated_at = datetime.now().isoformat()\<close>.\<close>

definition enter_stage :: "JobStatus \<Rightarrow> TransformationJob \<times> world \<Rightarrow> TransformationJob \<times> world" where
  "enter_stage s jw =
     (case jw of (job, w) \<Rightarrow>
        (job\<lparr>status := s, updated_at := clock w\<rparr>, emit (SetStatus s) (tick w)))"

text \<open>Any other assignment to \<open>job.status\<close>.\<close>

definition set_status :: "JobStatus \<Rightarrow> TransformationJob \<times> world \<Rightarrow> TransformationJob \<times> world" where
  "set_status s jw = (case jw of (job, w) \<Rightarrow> (job\<lparr>status := s\<rparr>, emit (SetStatus s) w))"

text \<open>
  A stage's handler: \<open>job.status = FAILED; job.error_message = f"<msg>{str(e)}"\<close>.
\<close>

definition fail_with :: "string \<Rightarrow> error \<Rightarrow> TransformationJob \<times> world \<Rightarrow> TransformationJob \<times> world" where
  "fail_with msg e jw =
     (case set_status FAILED jw of (job, w) \<Rightarrow>
        (job\<lparr>error_message := Some (msg @ str_of_error e)\<rparr>, w))"

definition schema_or_generic :: "env \<Rightarrow> string \<Rightarrow> TargetSchema" where
  "schema_or_generic E n = (case get_schema E n of Some s \<Rightarrow> s | None \<Rightarrow> GENERIC_CUSTOMER_SCHEMA)"

definition save_job :: "TransformationJob \<times> world \<Rightarrow> TransformationJob \<times> world" where
  "save_job jw =
     (case jw of (job, w) \<Rightarrow>
        (let job = job\<lparr>updated_at := clock w\<rparr>;
             w = tick w
         in (job, w\<lparr>store := (store w)(job_id job \<mapsto> to_dict job)\<rparr>)))"

definition get_job :: "world \<Rightarrow> string \<Rightarrow> TransformationJob option" where
  "get_job w jid = (case store w jid of None \<Rightarrow> None | Some d \<Rightarrow> Some (from_dict (clock w) d))"

definition create_job :: "string \<Rightarrow> string \<Rightarrow> string \<Rightarrow> world \<Rightarrow> TransformationJob \<times> world" where
  "create_job jid src schema w = save_job (new_job jid src schema (clock w), tick w)"

subsection \<open>Reading a selection\<close>

definition is_space :: "char \<Rightarrow> bool" where
  "is_space c = (c \<in> set [CHR 0x09, CHR 0x0A, CHR 0x0B, CHR 0x0C, CHR 0x0D,
                            CHR 0x1C, CHR 0x1D, CHR 0x1E, CHR 0x1F, CHR 0x20])"

definition strip :: "string \<Rightarrow> string" where
  "strip s = rev (dropWhile is_space (rev (dropWhile is_space s)))"

definition is_digit :: "char \<Rightarrow> bool" where
  "is_digit c = (48 \<le> (of_char c :: nat) \<and> (of_char c :: nat) \<le> 57)"

definition digit_val :: "char \<Rightarrow> nat" where
  "digit_val c = of_char c - 48"

text \<open>
  A run of decimal digits in which single underscores may stand between digits, as
  \<open>int\<close> and \<open>float\<close> accept it; \<open>None\<close> is the \<open>ValueError\<close>.
\<close>

fun digits_more :: "nat \<Rightarrow> string \<Rightarrow> nat option" where
  "digits_more acc [] = Some acc"
| "digits_more acc [c] = (if is_digit c then Some (10 * acc + digit_val c) else None)"
| "digits_more acc (c # d # cs) =
     (if is_digit c then digits_more (10 * acc + digit_val c) (d # cs)
      else if c = CHR ''_'' \<and> is_digit d then digits_more (10 * acc + digit_val d) cs
      else None)"

definition digits_value :: "string \<Rightarrow> nat option" where
  "digits_value s =
     (case s of [] \<Rightarrow> None
      | c # cs \<Rightarrow> if is_digit c then digits_more (digit_val c) cs else None)"

definition py_int :: "string \<Rightarrow> int option" where
  "py_int s =
     (case strip s of
        [] \<Rightarrow> None
      | c # cs \<Rightarrow>
          if c = CHR ''-'' then map_option (\<lambda>n. - int n) (digits_value cs)
          else if c = CHR ''+'' then map_option int (digits_value cs)
          else map_option int (digits_value (c # cs)))"

subsection \<open>The stages\<close>

definition or_default :: "string option \<Rightarrow> string \<Rightarrow> string" where
  "or_default x d = (case x of None \<Rightarrow> d | Some s \<Rightarrow> if s = [] then d else s)"

definition stage_detect_tables :: "env \<Rightarrow> TransformationJob \<times> world \<Rightarrow> TransformationJob \<times> world" where
  "stage_detect_tables E jw =
     (case enter_stage DETECTING_TABLES jw of (job, w) \<Rightarrow>
        let w = emit (Invoke TableDetector) w in
        (case detector_run E (clock w) (source_file job) of
           Inl e \<Rightarrow> fail_with ''Table detection failed: '' e (job, w)
         | Inr mta \<Rightarrow>
             let job = job\<lparr>multi_table_analysis := Some mta\<rparr>;
                 ts = tables mta
             in if length ts = 1
                then (job\<lparr>selected_table_id := Some (table_id (hd ts))\<rparr>, w)
                else
                  let target_schema = schema_or_generic E (target_schema_name job);
                      w = emit (Invoke TableMatcher) w
                  in (case matcher_run E (clock w) ts target_schema of
                        Inl e \<Rightarrow> fail_with ''Table detection failed: '' e (job, w)
                      | Inr tmr \<Rightarrow>
                          let job = job\<lparr>table_matching_result := Some tmr\<rparr>;
                              good_matches = get_good_matches tmr
                          in if length good_matches = 1
                             then (job\<lparr>selected_table_id :=
                                         Some (m_table_id (hd good_matches))\<rparr>, w)
                             else if length good_matches > 1
                             then (case set_status SELECTING_TABLE (job, w) of (job, w) \<Rightarrow>
                                     (job\<lparr>pending_questions :=
                                            [or_default (user_prompt tmr)
                                               ''Which table do you want to transform?'']\<rparr>, w))
                             else if truthy (best_match_table_id tmr)
                             then (let job = job\<lparr>selected_table_id := best_match_table_id tmr\<rparr>
                                   in case get_best_match tmr of
                                        Some best \<Rightarrow> (job, w)
                                      | None \<Rightarrow>
                                          fail_with ''Table detection failed: ''
                                            (Error ''NoneType object has no attribute match_score'')
                                            (job, w))
                             else (case set_status FAILED (job, w) of (job, w) \<Rightarrow>
                                     (job\<lparr>error_message :=
                                            Some ''No suitable tables found in file''\<rparr>, w)))))"

definition analyze_full_file :: "env \<Rightarrow> TransformationJob \<times> world \<Rightarrow> TransformationJob \<times> world" where
  "analyze_full_file E jw =
     (case jw of (job, w) \<Rightarrow>
        let w = emit (Invoke SchemaAnalyst) w in
        (case analyst_run E (clock w) (source_file job) of
           Inl e \<Rightarrow> fail_with ''Analysis failed: '' e (job, w)
         | Inr sa \<Rightarrow> (job\<lparr>source_analysis := Some sa\<rparr>, w)))"

definition analyze_selected_table :: "env \<Rightarrow> DetectedTable \<Rightarrow> TransformationJob \<times> world \<Rightarrow> TransformationJob \<times> world" where
  "analyze_selected_table E selected_table jw =
     (case jw of (job, w) \<Rightarrow>
        let w = emit (Invoke Loader) w in
        (case extract_table_from_boundary E (clock w) (source_file job) selected_table of
           Inl e \<Rightarrow> fail_with ''Analysis failed: '' e (job, w)
         | Inr table_df \<Rightarrow>
             let job = job\<lparr>selected_table_df := Some table_df\<rparr>;
                 w = emit (Invoke SchemaAnalyst) w
             in (case analyst_run E (clock w) (source_file job) of
                   Inl e \<Rightarrow> fail_with ''Analysis failed: '' e (job, w)
                 | Inr sa \<Rightarrow>
                     (job\<lparr>source_analysis :=
                            Some (sa\<lparr>total_rows := nrows table_df,
                                      total_columns := length (columns table_df)\<rparr>)\<rparr>, w))))"

definition stage_analyze :: "env \<Rightarrow> TransformationJob \<times> world \<Rightarrow> TransformationJob \<times> world" where
  "stage_analyze E jw =
     (case enter_stage ANALYZING jw of (job, w) \<Rightarrow>
        (case (selected_table_id job, multi_table_analysis job) of
           (Some sid, Some mta) \<Rightarrow>
             if sid = [] then analyze_full_file E (job, w)
             else (case get_table_by_id mta sid of
                     Some selected_table \<Rightarrow> analyze_selected_table E selected_table (job, w)
                   | None \<Rightarrow> analyze_full_file E (job, w))
         | _ \<Rightarrow> analyze_full_file E (job, w)))"

definition stage_plan :: "env \<Rightarrow> TransformationJob \<times> world \<Rightarrow> TransformationJob \<times> world" where
  "stage_plan E jw =
     (case enter_stage PLANNING jw of (job, w) \<Rightarrow>
        let target_schema = schema_or_generic E (target_schema_name job);
            w = emit (Invoke Planner) w
        in (case planner_run E (clock w) (source_analysis job) target_schema of
              Inl e \<Rightarrow> fail_with ''Planning failed: '' e (job, w)
            | Inr p \<Rightarrow>
                let job = job\<lparr>transformation_plan := Some p\<rparr>
                in if requires_user_input p
                   then (case set_status WAITING_FOR_INPUT (job, w) of (job, w) \<Rightarrow>
                           (job\<lparr>pending_questions := user_questions p\<rparr>, w))
                   else (job, w)))"

text \<open>The body of the \<open>try\<close> of \<open>_stage_execute\<close>: the table, then the engine.\<close>

definition run_engine :: "env \<Rightarrow> dataframe \<Rightarrow> TransformationJob \<Rightarrow> world \<Rightarrow> (error + dataframe) \<times> world" where
  "run_engine E df job w =
     (let w = emit (Invoke Engine) w
      in (engine_execute E (clock w) df (transformation_plan job), w))"

definition execute_body :: "env \<Rightarrow> TransformationJob \<Rightarrow> world \<Rightarrow> (error + dataframe) \<times> world" where
  "execute_body E job w =
     (case selected_table_df job of
        Some df \<Rightarrow> run_engine E df job w
      | None \<Rightarrow>
          let w = emit (Invoke Loader) w
          in (case load_full E (clock w) (source_file job) of
                Inl e \<Rightarrow> (Inl e, w)
              | Inr df \<Rightarrow> run_engine E df job w))"

text \<open>
  \<open>_stage_execute\<close> retries by calling itself while \<open>retry_count < max_retries\<close>; the
  distance between the two decreases at every retry.
\<close>

function stage_execute :: "env \<Rightarrow> TransformationJob \<times> world \<Rightarrow> TransformationJob \<times> world" where
  "stage_execute E (job0, w0) =
     (let job = job0\<lparr>status := EXECUTING, updated_at := clock w0\<rparr>;
          w = emit (SetStatus EXECUTING) (tick w0)
      in case execute_body E job w of
           (Inr df, w') \<Rightarrow> (job\<lparr>result_df := Some df\<rparr>, w')
         | (Inl e, w') \<Rightarrow>
             if retry_count job < max_retries job
             then stage_execute E (job\<lparr>retry_count := retry_count job + 1\<rparr>, w')
             else fail_with ''Execution failed: '' e (job, w'))"
  by pat_completeness auto
termination
  by (relation "measure (\<lambda>(E, job, w). max_retries job - retry_count job)") auto

definition stage_validate_and_output :: "env \<Rightarrow> TransformationJob \<times> world \<Rightarrow> TransformationJob \<times> world" where
  "stage_validate_and_output E jw =
     (case enter_stage VALIDATING jw of (job, w) \<Rightarrow>
        (case result_df job of
           None \<Rightarrow>
             fail_with ''Validation/Output failed: '' (Error ''No result data to validate'') (job, w)
         | Some df \<Rightarrow>
             let target_schema = schema_or_generic E (target_schema_name job);
                 w = emit (Invoke Validator) w
             in (case validator_run E (clock w) df target_schema of
                   Inl e \<Rightarrow> fail_with ''Validation/Output failed: '' e (job, w)
                 | Inr report \<Rightarrow>
                     let job = job\<lparr>validation_report := Some report\<rparr>;
                         w = emit (Invoke OutputWriter) w
                     in (case output_generate E (clock w) df report (source_file job) (job_id job) of
                           Inl e \<Rightarrow> fail_with ''Validation/Output failed: '' e (job, w)
                         | Inr output_path \<Rightarrow>
                             set_status COMPLETED (job\<lparr>output_file := Some output_path\<rparr>, w)))))"

subsection \<open>The code-generation fallback\<close>

definition fallback_run_script :: "env \<Rightarrow> TargetSchema \<Rightarrow> TransformationJob \<times> world \<Rightarrow> TransformationJob \<times> world" where
  "fallback_run_script E target_schema jw =
     (case jw of (job, w) \<Rightarrow>
        let script_path = output_dir_parent E @ ''/fallback_'' @ job_id job @ ''.py'';
            w = emit (Invoke Subprocess) w
        in (case subprocess_run E (clock w) script_path of
              Inl e \<Rightarrow> fail_with ''Fallback failed: '' e (job, w)
            | Inr result \<Rightarrow>
                if returncode result \<noteq> 0
                then fail_with ''Fallback failed: ''
                       (Error (''Script execution failed: '' @ stderr result)) (job, w)
                else
                  let expected_output =
                        output_dir E @ ''/'' @ ts_name target_schema @ ''_fallback.xlsx''
                  in if path_exists E (clock w) expected_output
                     then set_status COMPLETED (job\<lparr>output_file := Some expected_output\<rparr>, w)
                     else (case set_status COMPLETED (job, w) of (job, w) \<Rightarrow>
                             (job\<lparr>error_message :=
                                    Some ''Script ran but output file not found at expected location''\<rparr>,
                              w))))"

definition fallback_generate :: "env \<Rightarrow> TargetSchema \<Rightarrow> SourceSchemaAnalysis \<Rightarrow> TransformationJob \<times> world \<Rightarrow> TransformationJob \<times> world" where
  "fallback_generate E target_schema sa jw =
     (case jw of (job, w) \<Rightarrow>
        let w = emit (Invoke CodeGenerator) w in
        (case code_generator_run E (clock w) (source_file job) target_schema sa of
           Inl e \<Rightarrow> fail_with ''Fallback failed: '' e (job, w)
         | Inr code \<Rightarrow>
             let script_path = output_dir_parent E @ ''/fallback_'' @ job_id job @ ''.py''
             in (case write_script E (clock w) script_path code of
                   Some e \<Rightarrow> fail_with ''Fallback failed: '' e (job, w)
                 | None \<Rightarrow> fallback_run_script E target_schema (job, w))))"

definition stage_fallback_execution :: "env \<Rightarrow> TransformationJob \<times> world \<Rightarrow> TransformationJob \<times> world" where
  "stage_fallback_execution E jw =
     (case enter_stage EXECUTING jw of (job, w) \<Rightarrow>
        (case get_schema E (target_schema_name job) of
           None \<Rightarrow>
             fail_with ''Fallback failed: ''
               (Error (''Unknown target schema: '' @ target_schema_name job)) (job, w)
         | Some target_schema \<Rightarrow>
             (case source_analysis job of
                Some sa \<Rightarrow> fallback_generate E target_schema sa (job, w)
              | None \<Rightarrow>
                  let w = emit (Invoke SchemaAnalyst) w in
                  (case analyst_run E (clock w) (source_file job) of
                     Inl e \<Rightarrow> fail_with ''Fallback failed: '' e (job, w)
                   | Inr sa \<Rightarrow>
                       fallback_generate E target_schema sa
                         (job\<lparr>source_analysis := Some sa\<rparr>, w)))))"

subsection \<open>The job-control operations\<close>

text \<open>
  \<open>run_job\<close>. Every stage handles its own exceptions, and no step between the stages
  raises, so the handler around the whole body is never entered; the final
  \<open>_save_job\<close> is reached by falling through the last stage only.
\<close>

definition low_confidence :: "TransformationJob \<Rightarrow> bool" where
  "low_confidence job =
     (case transformation_plan job of None \<Rightarrow> False | Some p \<Rightarrow> confidence_score p < 1 / 2)"

definition run_after_plan :: "env \<Rightarrow> TransformationJob \<times> world \<Rightarrow> TransformationJob \<times> world" where
  "run_after_plan E jw =
     (if status (fst jw) = WAITING_FOR_INPUT then jw
      else if status (fst jw) = FAILED then stage_fallback_execution E jw
      else if low_confidence (fst jw) then stage_fallback_execution E jw
      else
        let jw = stage_execute E jw
        in if status (fst jw) = FAILED then stage_fallback_execution E jw
           else save_job (stage_validate_and_output E jw))"

text \<open>
  The stages before planning: \<open>Inl\<close> is an early return of \<open>run_job\<close> (detection
  failed or waits for a selection, or analysis failed), \<open>Inr\<close> the job as planning
  receives it.
\<close>

definition run_before_plan :: "env \<Rightarrow> TransformationJob \<times> world \<Rightarrow> (TransformationJob \<times> world) + (TransformationJob \<times> world)" where
  "run_before_plan E jw =
     (let detected = (if multi_table_analysis (fst jw) = None then stage_detect_tables E jw else jw)
      in if multi_table_analysis (fst jw) = None \<and>
            (status (fst detected) = FAILED \<or> status (fst detected) = SELECTING_TABLE)
         then Inl detected
         else
           let analyzed = stage_analyze E detected
           in if status (fst analyzed) = FAILED then Inl analyzed else Inr analyzed)"

definition run_job :: "env \<Rightarrow> TransformationJob \<times> world \<Rightarrow> TransformationJob \<times> world" where
  "run_job E jw =
     (case run_before_plan E jw of
        Inl returned \<Rightarrow> returned
      | Inr analyzed \<Rightarrow> run_after_plan E (stage_plan E analyzed))"

definition select_table :: "env \<Rightarrow> TransformationJob \<times> world \<Rightarrow> string \<Rightarrow> TransformationJob \<times> world" where
  "select_table E jw selection =
     (case jw of (job, w) \<Rightarrow>
        if status job \<noteq> SELECTING_TABLE then (job, w)
        else
          (case multi_table_analysis job of
             None \<Rightarrow>
               (case set_status FAILED (job, w) of (job, w) \<Rightarrow>
                  (job\<lparr>error_message := Some ''No tables detected for selection''\<rparr>, w))
           | Some mta \<Rightarrow>
               let ts = tables mta;
                   job =
                     (case py_int selection of
                        Some n \<Rightarrow>
                          let table_idx = n - 1
                          in if 0 \<le> table_idx \<and> table_idx < int (length ts)
                             then job\<lparr>selected_table_id := Some (table_id (ts ! nat table_idx))\<rparr>
                             else job
                      | None \<Rightarrow>
                          if list_ex (\<lambda>t. table_id t = selection) ts
                          then job\<lparr>selected_table_id := Some selection\<rparr>
                          else job)
               in if \<not> truthy (selected_table_id job) then (job, w)
                  else run_job E (job\<lparr>pending_questions := []\<rparr>, w)))"

text \<open>Assignment to a dictionary key: in place when the key is there, else at the end.\<close>

fun dict_set :: "'k \<Rightarrow> 'v \<Rightarrow> ('k \<times> 'v) list \<Rightarrow> ('k \<times> 'v) list" where
  "dict_set k v [] = [(k, v)]"
| "dict_set k v (p # ps) = (if fst p = k then (k, v) # ps else p # dict_set k v ps)"

text \<open>
  \<open>answer_question\<close>. A negative index counts from the end of the list, and an index
  before its start raises \<open>IndexError\<close>, which nothing catches.
\<close>

definition answer_question :: "env \<Rightarrow> TransformationJob \<times> world \<Rightarrow> int \<Rightarrow> string \<Rightarrow> error + TransformationJob \<times> world" where
  "answer_question E jw question_index answer =
     (case jw of (job, w) \<Rightarrow>
        if status job = SELECTING_TABLE then Inr (select_table E (job, w) answer)
        else if status job \<noteq> WAITING_FOR_INPUT then Inr (job, w)
        else
          let n = int (length (pending_questions job));
              r = (if question_index < n
                   then (if question_index < - n then Inl (Error ''list index out of range'')
                         else
                           let i = (if question_index < 0 then question_index + n else question_index);
                               question = pending_questions job ! nat i
                           in Inr (job\<lparr>user_answers := dict_set question answer (user_answers job)\<rparr>))
                   else Inr job)
          in (case r of
                Inl e \<Rightarrow> Inl e
              | Inr job \<Rightarrow>
                  if length (user_answers job) \<ge> length (pending_questions job)
                  then Inr (run_job E (job\<lparr>pending_questions := []\<rparr>, w))
                  else Inr (job, w)))"

subsection \<open>A sample world\<close>

text \<open>
  A world in which every collaborator succeeds: one table is detected, the planner is
  confident and asks nothing, the generated script exits with code 0 and its output
  file is there. The concrete runs below change one answer at a time.
\<close>

definition sample_plan :: TransformationPlan where
  "sample_plan = \<lparr>
     confidence_score = 9 / 10,
     column_mappings = [\<lparr>source_col = ''Name'', target_col = ''name'', action = Direct,
                         transform_id = None\<rparr>],
     transformations = [], enrichments = [], warnings = [],
     requires_user_input = False, user_questions = []\<rparr>"

definition sample_table :: DetectedTable where
  "sample_table = \<lparr>table_id = ''table_1'', column_names = [''Name''],
                    sample_values = [], header_row = 0\<rparr>"

definition sample_analysis :: SourceSchemaAnalysis where
  "sample_analysis = \<lparr>sa_columns = [''Name''], total_rows = 1, total_columns = 1,
                       overall_quality = ''good''\<rparr>"

definition sample_env :: env where
  "sample_env = \<lparr>
     get_schema = (\<lambda>n. if n = ''generic_customer'' then Some GENERIC_CUSTOMER_SCHEMA else None),
     output_dir = ''output'',
     output_dir_parent = ''.'',
     detector_run = (\<lambda>t f. Inr \<lparr>tables = [sample_table]\<rparr>),
     matcher_run = (\<lambda>t ts s. Inr \<lparr>matches = [], best_match_table_id = None, user_prompt = None\<rparr>),
     extract_table_from_boundary = (\<lambda>t f b. Inr [(''Name'', [VStr ''Ann''])]),
     analyst_run = (\<lambda>t f. Inr sample_analysis),
     planner_run = (\<lambda>t a s. Inr sample_plan),
     load_full = (\<lambda>t f. Inr [(''Name'', [VStr ''Ann''])]),
     engine_execute = (\<lambda>t df p. Inr [(''name'', [VStr ''Ann''])]),
     validator_run = (\<lambda>t df s. Inr \<lparr>quality_score = 100, vr_status = ''PASSED''\<rparr>),
     output_generate = (\<lambda>t df r f j. Inr ''output/data_transformed.xlsx''),
     code_generator_run = (\<lambda>t f s a. Inr ''print(1)''),
     write_script = (\<lambda>t p c. None),
     subprocess_run = (\<lambda>t p. Inr \<lparr>returncode = 0, stdout = [], stderr = []\<rparr>),
     path_exists = (\<lambda>t p. True)\<rparr>"

definition init_world :: world where
  "init_world = \<lparr>clock = 0, store = (\<lambda>j. None), trace = []\<rparr>"

definition sample_job :: TransformationJob where
  "sample_job = new_job ''job1'' ''data.xlsx'' ''generic_customer'' 0"

definition missing_output_env :: env where
  "missing_output_env = sample_env\<lparr>path_exists := (\<lambda>t p. False)\<rparr>"

definition script_fails_env :: env where
  "script_fails_env =
     sample_env\<lparr>subprocess_run :=
                  (\<lambda>t p. Inr \<lparr>returncode = 1, stdout = [], stderr = ''boom''\<rparr>)\<rparr>"

definition asking_env :: env where
  "asking_env =
     sample_env\<lparr>planner_run :=
                  (\<lambda>t a s. Inr (sample_plan\<lparr>requires_user_input := True,
                                            user_questions := [''Which column is the name?'']\<rparr>))\<rparr>"

definition unsure_env :: env where
  "unsure_env =
     sample_env\<lparr>planner_run := (\<lambda>t a s. Inr (sample_plan\<lparr>confidence_score := 3 / 10\<rparr>))\<rparr>"

definition analysis_fails_env :: env where
  "analysis_fails_env = sample_env\<lparr>analyst_run := (\<lambda>t f. Inl (Error ''cannot read file''))\<rparr>"

definition completed_job :: TransformationJob where
  "completed_job =
     sample_job\<lparr>status := COMPLETED, output_file := Some ''output/data_transformed.xlsx'',
                 multi_table_analysis := Some \<lparr>tables = [sample_table]\<rparr>,
                 selected_table_id := Some ''table_1''\<rparr>"

definition analysed_job :: TransformationJob where
  "analysed_job =
     sample_job\<lparr>status := ANALYZING, source_analysis := Some sample_analysis,
                 multi_table_analysis := Some \<lparr>tables = [sample_table]\<rparr>,
                 selected_table_id := Some ''table_1''\<rparr>"

section \<open>The function registry\<close>

subsection \<open>Text\<close>

definition is_upper :: "char \<Rightarrow> bool" where
  "is_upper c = (65 \<le> (of_char c :: nat) \<and> (of_char c :: nat) \<le> 90)"

definition is_lower :: "char \<Rightarrow> bool" where
  "is_lower c = (97 \<le> (of_char c :: nat) \<and> (of_char c :: nat) \<le> 122)"

definition to_lower :: "char \<Rightarrow> char" where
  "to_lower c = (if is_upper c then char_of (of_char c + 32 :: nat) else c)"

definition to_upper :: "char \<Rightarrow> char" where
  "to_upper c = (if is_lower c then char_of (of_char c - 32 :: nat) else c)"

definition lower :: "string \<Rightarrow> string" where
  "lower s = map to_lower s"

definition upper :: "string \<Rightarrow> string" where
  "upper s = map to_upper s"

text \<open>
  \<open>str.title()\<close>: a letter that follows a letter is lowered, any other letter is
  raised.
\<close>

fun title_from :: "bool \<Rightarrow> string \<Rightarrow> string" where
  "title_from after_letter [] = []"
| "title_from after_letter (c # cs) =
     (if is_upper c \<or> is_lower c
      then (if after_letter then to_lower c else to_upper c) # title_from True cs
      else c # title_from False cs)"

definition title :: "string \<Rightarrow> string" where
  "title s = title_from False s"

text \<open>
  \<open>s.split(sep)\<close> and \<open>s.replace(old, new)\<close> for a separator that is not empty: the
  text is read from the left, and a match of the separator is skipped as a whole.
\<close>

fun split_from :: "string \<Rightarrow> nat \<Rightarrow> string \<Rightarrow> string \<Rightarrow> string list" where
  "split_from sep k cur [] = [cur]"
| "split_from sep (Suc k) cur (c # cs) = split_from sep k cur cs"
| "split_from sep 0 cur (c # cs) =
     (if prefix sep (c # cs) then cur # split_from sep (length sep - 1) [] cs
      else split_from sep 0 (cur @ [c]) cs)"

definition split :: "string \<Rightarrow> string \<Rightarrow> string list" where
  "split sep s = split_from sep 0 [] s"

fun replace_from :: "string \<Rightarrow> string \<Rightarrow> nat \<Rightarrow> string \<Rightarrow> string" where
  "replace_from old new k [] = []"
| "replace_from old new (Suc k) (c # cs) = replace_from old new k cs"
| "replace_from old new 0 (c # cs) =
     (if prefix old (c # cs) then new @ replace_from old new (length old - 1) cs
      else c # replace_from old new 0 cs)"

definition replace :: "string \<Rightarrow> string \<Rightarrow> string \<Rightarrow> string" where
  "replace old new s = replace_from old new 0 s"

text \<open>\<open>sep.join(parts)\<close>.\<close>

fun join :: "string \<Rightarrow> string list \<Rightarrow> string" where
  "join sep [] = []"
| "join sep [p] = p"
| "join sep (p # q # ps) = p @ sep @ join sep (q # ps)"

text \<open>\<open>s.split()\<close> with no separator: the runs of characters that are not white space.\<close>

fun words_from :: "string \<Rightarrow> string \<Rightarrow> string list" where
  "words_from cur [] = (if cur = [] then [] else [cur])"
| "words_from cur (c # cs) =
     (if is_space c then (if cur = [] then words_from [] cs else cur # words_from [] cs)
      else words_from (cur @ [c]) cs)"

text \<open>\<open>re.sub(r'\s+', ' ', s)\<close>: every run of white space becomes one space.\<close>

fun collapse_spaces :: "bool \<Rightarrow> string \<Rightarrow> string" where
  "collapse_spaces in_run [] = []"
| "collapse_spaces in_run (c # cs) =
     (if is_space c then (if in_run then collapse_spaces True cs
                          else CHR '' '' # collapse_spaces True cs)
      else c # collapse_spaces False cs)"

function string_of_nat :: "nat \<Rightarrow> string" where
  "string_of_nat n =
     (if n < 10 then [char_of (48 + n)]
      else string_of_nat (n div 10) @ [char_of (48 + n mod 10)])"
  by pat_completeness auto
termination
  by (relation "measure id") auto

declare string_of_nat.simps [simp del]

definition string_of_int :: "int \<Rightarrow> string" where
  "string_of_int i = (if i < 0 then CHR ''-'' # string_of_nat (nat (- i)) else string_of_nat (nat i))"

subsection \<open>Reading a float\<close>

text \<open>
  \<open>float(s)\<close> on text: surrounding white space, a sign, then \<open>inf\<close>, \<open>infinity\<close> or
  \<open>nan\<close> in any case, or a decimal number with an optional fraction and exponent. The
  value is the exact decimal value (no rounding, no overflow); \<open>None\<close> is the
  \<open>ValueError\<close>.
\<close>

definition cut :: "(char \<Rightarrow> bool) \<Rightarrow> string \<Rightarrow> string \<times> string option" where
  "cut P s =
     (takeWhile (\<lambda>c. \<not> P c) s,
      case dropWhile (\<lambda>c. \<not> P c) s of [] \<Rightarrow> None | c # rest \<Rightarrow> Some rest)"

definition mantissa :: "string \<Rightarrow> real option" where
  "mantissa m =
     (case cut (\<lambda>c. c = CHR ''.'') m of
        (ip, None) \<Rightarrow> map_option real (digits_value ip)
      | (ip, Some fp) \<Rightarrow>
          if ip = [] \<and> fp = [] then None
          else (case (if ip = [] then Some 0 else digits_value ip,
                      if fp = [] then Some 0 else digits_value fp) of
                  (Some a, Some b) \<Rightarrow>
                    Some (real a + real b / 10 ^ length (filter is_digit fp))
                | _ \<Rightarrow> None))"

definition exponent :: "string \<Rightarrow> int option" where
  "exponent x =
     (case x of
        [] \<Rightarrow> None
      | c # cs \<Rightarrow>
          if c = CHR ''-'' then map_option (\<lambda>n. - int n) (digits_value cs)
          else if c = CHR ''+'' then map_option int (digits_value cs)
          else map_option int (digits_value (c # cs)))"

definition scale10 :: "real \<Rightarrow> int \<Rightarrow> real" where
  "scale10 r k = (if k < 0 then r / 10 ^ nat (- k) else r * 10 ^ nat k)"

definition unsigned_float :: "string \<Rightarrow> val option" where
  "unsigned_float s =
     (if lower s = ''inf'' \<or> lower s = ''infinity'' then Some (VInf False)
      else if lower s = ''nan'' then Some VNaN
      else
        (case cut (\<lambda>c. c = CHR ''e'' \<or> c = CHR ''E'') s of
           (m, None) \<Rightarrow> map_option VFloat (mantissa m)
         | (m, Some x) \<Rightarrow>
             (case (mantissa m, exponent x) of
                (Some r, Some k) \<Rightarrow> Some (VFloat (scale10 r k))
              | _ \<Rightarrow> None)))"

fun negate :: "val \<Rightarrow> val" where
  "negate (VFloat r) = VFloat (- r)"
| "negate (VInf b) = VInf (\<not> b)"
| "negate v = v"

definition py_float :: "string \<Rightarrow> val option" where
  "py_float s =
     (case strip s of
        [] \<Rightarrow> None
      | c # cs \<Rightarrow>
          if c = CHR ''-'' then map_option negate (unsigned_float cs)
          else if c = CHR ''+'' then unsigned_float cs
          else unsigned_float (c # cs))"

subsection \<open>Values, parameters and the libraries\<close>

text \<open>
  What the registry takes from outside the repository: the regular-expression engine
  (an invalid pattern is \<open>re.error\<close>; a match is the list of its groups, group 0
  first, a group that took no part being \<open>None\<close>), the date parsers and formatter
  (a datetime is a count of microseconds), the phone-number library, and the text of
  the values whose \<open>str\<close> is not modelled here.
\<close>

record libs =
  re_search :: "string \<Rightarrow> string \<Rightarrow> error + string option list option"
  strptime :: "string \<Rightarrow> string \<Rightarrow> int option"
  to_datetime :: "string \<Rightarrow> bool \<Rightarrow> int option"
  strftime :: "int \<Rightarrow> string \<Rightarrow> string"
  phone_parse :: "string \<Rightarrow> val \<Rightarrow> (nat \<times> nat) option"
  phone_is_valid :: "nat \<times> nat \<Rightarrow> bool"
  phone_format :: "nat \<times> nat \<Rightarrow> string \<Rightarrow> string"
  str_other :: "val \<Rightarrow> string"

record kwargs =
  kw_row :: "(string \<times> val) list option"
  kw_values :: "val list option"

definition no_kwargs :: kwargs where
  "no_kwargs = \<lparr>kw_row = None, kw_values = None\<rparr>"

definition pd_isna :: "val \<Rightarrow> bool" where
  "pd_isna v = (v = VNone \<or> v = VNaN)"

fun py_truthy :: "val \<Rightarrow> bool" where
  "py_truthy VNone = False"
| "py_truthy VNaN = True"
| "py_truthy (VBool b) = b"
| "py_truthy (VInt i) = (i \<noteq> 0)"
| "py_truthy (VFloat r) = (r \<noteq> 0)"
| "py_truthy (VInf b) = True"
| "py_truthy (VStr s) = (s \<noteq> [])"
| "py_truthy (VDate d) = True"
| "py_truthy (VDict d) = (d \<noteq> [])"

fun py_str :: "libs \<Rightarrow> val \<Rightarrow> string" where
  "py_str L (VStr s) = s"
| "py_str L VNone = ''None''"
| "py_str L VNaN = ''nan''"
| "py_str L (VBool b) = (if b then ''True'' else ''False'')"
| "py_str L (VInt i) = string_of_int i"
| "py_str L (VInf b) = (if b then ''-inf'' else ''inf'')"
| "py_str L v = str_other L v"

text \<open>\<open>d.get(key, default)\<close> and \<open>key in d\<close> on a dictionary with text keys.\<close>

definition dict_get :: "(string \<times> val) list \<Rightarrow> string \<Rightarrow> val \<Rightarrow> val" where
  "dict_get d k dflt = (case map_of d k of Some v \<Rightarrow> v | None \<Rightarrow> dflt)"

definition type_error :: "string \<Rightarrow> error + val" where
  "type_error what = Inl (Error (''TypeError: '' @ what))"

subsection \<open>String functions\<close>

definition EMPTY_NAME :: val where
  "EMPTY_NAME = VDict [(''first_name'', VStr []), (''middle_name'', VStr []), (''last_name'', VStr [])]"

definition name_dict :: "string \<Rightarrow> string \<Rightarrow> string \<Rightarrow> val" where
  "name_dict f m l = VDict [(''first_name'', VStr f), (''middle_name'', VStr m), (''last_name'', VStr l)]"

definition name_parts :: "val \<Rightarrow> val \<Rightarrow> string list \<Rightarrow> val" where
  "name_parts culture handle_single parts =
     (case parts of
        [] \<Rightarrow> EMPTY_NAME
      | [a] \<Rightarrow>
          if handle_single = VStr ''last_name_only'' then name_dict [] [] a
          else name_dict a [] []
      | [a, b] \<Rightarrow>
          if culture = VStr ''eastern'' then name_dict b [] a
          else name_dict a [] b
      | a # rest \<Rightarrow>
          if culture = VStr ''eastern''
          then name_dict (last rest) (join '' '' (butlast rest)) a
          else name_dict a (join '' '' (butlast rest)) (last rest))"

definition split_full_name :: "libs \<Rightarrow> val \<Rightarrow> (string \<times> val) list \<Rightarrow> kwargs \<Rightarrow> error + val" where
  "split_full_name L v params kw =
     (if pd_isna v then Inr EMPTY_NAME
      else
        let s = strip (py_str L v)
        in if s = [] then Inr EMPTY_NAME
           else
             let delimiter = dict_get params ''delimiter'' (VStr ''auto'');
                 culture = dict_get params ''culture'' (VStr ''western'');
                 handle_single = dict_get params ''handle_single_name'' (VStr ''first_name_only'');
                 delimiter = (if delimiter = VStr ''auto''
                              then (if CHR '','' \<in> set s then VStr '','' else VStr '' '')
                              else delimiter)
             in (case delimiter of
                   VStr d \<Rightarrow>
                     if d = [] then Inl (Error ''empty separator'')
                     else Inr (name_parts culture handle_single
                                 (filter (\<lambda>p. p \<noteq> []) (map strip (split d s))))
                 | VNone \<Rightarrow>
                     Inr (name_parts culture handle_single
                            (filter (\<lambda>p. p \<noteq> []) (map strip (words_from [] s))))
                 | _ \<Rightarrow> type_error ''must be str or None''))"

text \<open>
  The group that \<open>regex_extract\<close> returns from a match: \<open>group_index == 0\<close> first,
  then \<open>group_index <= len(match.groups())\<close>; an index below zero passes that test
  and \<open>match.group\<close> raises \<open>IndexError\<close>, which the function does not catch.
\<close>

definition match_group :: "string option list \<Rightarrow> val \<Rightarrow> error + val" where
  "match_group groups group_index =
     (let as_val = (\<lambda>g. case g of None \<Rightarrow> VNone | Some s \<Rightarrow> VStr s);
          by_int = (\<lambda>i::int.
            if i = 0 then Inr (as_val (hd groups))
            else if i \<le> int (length groups) - 1
            then (if i < 0 then Inl (Error ''no such group'')
                  else Inr (as_val (groups ! nat i)))
            else Inr (VStr []))
      in case group_index of
           VInt i \<Rightarrow> by_int i
         | VBool b \<Rightarrow> by_int (if b then 1 else 0)
         | VFloat r \<Rightarrow>
             if r = 0 then Inr (as_val (hd groups))
             else if r \<le> real (length groups) - 1 then Inl (Error ''no such group'')
             else Inr (VStr [])
         | VInf b \<Rightarrow> if b then Inl (Error ''no such group'') else Inr (VStr [])
         | VNaN \<Rightarrow> Inr (VStr [])
         | _ \<Rightarrow> type_error ''group_index is not a number'')"

definition regex_extract :: "libs \<Rightarrow> val \<Rightarrow> (string \<times> val) list \<Rightarrow> kwargs \<Rightarrow> error + val" where
  "regex_extract L v params kw =
     (if pd_isna v then Inr (VStr [])
      else
        let pat = dict_get params ''pattern'' (VStr []);
            group_index = dict_get params ''group_index'' (VInt 0)
        in if \<not> py_truthy pat then Inr (VStr (py_str L v))
           else (case pat of
                   VStr p \<Rightarrow>
                     (case re_search L p (py_str L v) of
                        Inl e \<Rightarrow> Inr (VStr [])
                      | Inr None \<Rightarrow> Inr (VStr [])
                      | Inr (Some groups) \<Rightarrow>
                          if groups = [] then Inr (VStr []) else match_group groups group_index)
                 | _ \<Rightarrow> type_error ''first argument must be string or compiled pattern''))"

definition clean_whitespace :: "libs \<Rightarrow> val \<Rightarrow> (string \<times> val) list \<Rightarrow> kwargs \<Rightarrow> error + val" where
  "clean_whitespace L v params kw =
     (if pd_isna v then Inr (VStr [])
      else Inr (VStr (collapse_spaces False (strip (py_str L v)))))"

definition uppercase :: "libs \<Rightarrow> val \<Rightarrow> (string \<times> val) list \<Rightarrow> kwargs \<Rightarrow> error + val" where
  "uppercase L v params kw = (if pd_isna v then Inr (VStr []) else Inr (VStr (upper (py_str L v))))"

definition lowercase :: "libs \<Rightarrow> val \<Rightarrow> (string \<times> val) list \<Rightarrow> kwargs \<Rightarrow> error + val" where
  "lowercase L v params kw = (if pd_isna v then Inr (VStr []) else Inr (VStr (lower (py_str L v))))"

definition titlecase :: "libs \<Rightarrow> val \<Rightarrow> (string \<times> val) list \<Rightarrow> kwargs \<Rightarrow> error + val" where
  "titlecase L v params kw = (if pd_isna v then Inr (VStr []) else Inr (VStr (title (py_str L v))))"

definition trim :: "libs \<Rightarrow> val \<Rightarrow> (string \<times> val) list \<Rightarrow> kwargs \<Rightarrow> error + val" where
  "trim L v params kw = (if pd_isna v then Inr (VStr []) else Inr (VStr (strip (py_str L v))))"

definition concatenate :: "libs \<Rightarrow> val \<Rightarrow> (string \<times> val) list \<Rightarrow> kwargs \<Rightarrow> error + val" where
  "concatenate L v params kw =
     (let separator = dict_get params ''separator'' (VStr '' '');
          vals = (case kw_values kw of Some vs \<Rightarrow> vs | None \<Rightarrow> [v]);
          str_values = map (\<lambda>x. strip (py_str L x)) (filter (\<lambda>x. \<not> pd_isna x) vals)
      in case separator of
           VStr sep \<Rightarrow> Inr (VStr (join sep str_values))
         | _ \<Rightarrow> Inl (Error ''AttributeError: join''))"

subsection \<open>Date functions\<close>

definition date_formats :: "val \<Rightarrow> string list" where
  "date_formats preference =
     (if preference = VStr ''US''
      then [''%m/%d/%Y'', ''%m-%d-%Y'', ''%m/%d/%y'', ''%Y-%m-%d'', ''%Y/%m/%d'',
            ''%d %b %Y'', ''%d %B %Y'', ''%b %d, %Y'', ''%B %d, %Y'']
      else if preference = VStr ''ISO''
      then [''%Y-%m-%d'', ''%Y/%m/%d'', ''%d/%m/%Y'', ''%d-%m-%Y'', ''%d %b %Y'', ''%d %B %Y'']
      else [''%d/%m/%Y'', ''%d-%m-%Y'', ''%d/%m/%y'', ''%Y-%m-%d'', ''%Y/%m/%d'',
            ''%d %b %Y'', ''%d %B %Y'', ''%d-%b-%Y'', ''%d-%B-%Y''])"

text \<open>The loop over the formats: the first one that \<open>strptime\<close> accepts.\<close>

fun first_parse :: "libs \<Rightarrow> string \<Rightarrow> string list \<Rightarrow> int option" where
  "first_parse L s [] = None"
| "first_parse L s (fmt # fmts) =
     (case strptime L s fmt of Some d \<Rightarrow> Some d | None \<Rightarrow> first_parse L s fmts)"

definition parse_date :: "libs \<Rightarrow> val \<Rightarrow> (string \<times> val) list \<Rightarrow> int option" where
  "parse_date L v params =
     (if pd_isna v then None
      else
        let value_str = strip (py_str L v)
        in if value_str = [] then None
           else
             let preference = dict_get params ''ambiguity_preference'' (VStr ''UK'')
             in (case first_parse L value_str (date_formats preference) of
                   Some d \<Rightarrow> Some d
                 | None \<Rightarrow> to_datetime L value_str (preference \<noteq> VStr ''US'')))"

definition date_val :: "int option \<Rightarrow> val" where
  "date_val d = (case d of None \<Rightarrow> VNone | Some t \<Rightarrow> VDate t)"

definition smart_date_parse :: "libs \<Rightarrow> val \<Rightarrow> (string \<times> val) list \<Rightarrow> kwargs \<Rightarrow> error + val" where
  "smart_date_parse L v params kw = Inr (date_val (parse_date L v params))"

definition format_date :: "libs \<Rightarrow> val \<Rightarrow> (string \<times> val) list \<Rightarrow> kwargs \<Rightarrow> error + val" where
  "format_date L v params kw =
     (let target_format = dict_get params ''target_format'' (VStr ''%Y-%m-%d'');
          render = (\<lambda>d. case target_format of
                          VStr f \<Rightarrow> Inr (VStr (strftime L d f))
                        | _ \<Rightarrow> type_error ''strftime() argument 1 must be str'')
      in if pd_isna v then Inr (VStr [])
         else (case v of
                 VDate d \<Rightarrow> render d
               | _ \<Rightarrow>
                   (case parse_date L v params of
                      Some d \<Rightarrow> render d
                    | None \<Rightarrow> Inr (VStr (py_str L v)))))"

definition microseconds_per_day :: int where
  "microseconds_per_day = 86400000000"

definition compute_date_diff :: "libs \<Rightarrow> val \<Rightarrow> (string \<times> val) list \<Rightarrow> kwargs \<Rightarrow> error + val" where
  "compute_date_diff L v params kw =
     (if pd_isna v then Inr VNone
      else
        let row = (case kw_row kw of Some r \<Rightarrow> r | None \<Rightarrow> []);
            date2_col = dict_get params ''date2_col'' VNone
        in (case parse_date L v params of
              None \<Rightarrow> Inr VNone
            | Some date1 \<Rightarrow>
                let second =
                      (case (if py_truthy date2_col
                             then (case date2_col of VStr c \<Rightarrow> map_of row c | _ \<Rightarrow> None)
                             else None) of
                         Some x \<Rightarrow> Some x
                       | None \<Rightarrow>
                           (case kw_values kw of
                              Some (a # b # rest) \<Rightarrow> Some b
                            | _ \<Rightarrow> None))
                in (case second of
                      None \<Rightarrow> Inr VNone
                    | Some x \<Rightarrow>
                        (case parse_date L x params of
                           None \<Rightarrow> Inr VNone
                         | Some date2 \<Rightarrow> Inr (VInt ((date1 - date2) div microseconds_per_day))))))"

subsection \<open>Number functions\<close>

text \<open>The symbols, in the order of the source; the first five are the UTF-8 text of
  the dollar, euro, pound, yen and rupee signs.\<close>

definition currency_symbols :: "string list" where
  "currency_symbols =
     [''$'',
      [CHR 0xE2, CHR 0x82, CHR 0xAC],
      [CHR 0xC2, CHR 0xA3],
      [CHR 0xC2, CHR 0xA5],
      [CHR 0xE2, CHR 0x82, CHR 0xB9],
      ''Rs'', ''Rs.'', ''INR'', ''USD'', ''EUR'']"

definition strip_symbols :: "string \<Rightarrow> string" where
  "strip_symbols s = fold (\<lambda>symbol acc. replace symbol [] acc) currency_symbols s"

definition normalize_currency :: "libs \<Rightarrow> val \<Rightarrow> (string \<times> val) list \<Rightarrow> kwargs \<Rightarrow> error + val" where
  "normalize_currency L v params kw =
     (if pd_isna v then Inr VNone
      else
        let value_str = strip (py_str L v)
        in if value_str = [] then Inr VNone
           else
             let value_str = strip_symbols value_str;
                 value_str = strip (replace '' '' [] (replace '','' [] value_str));
                 value_str = (if value_str \<noteq> [] \<and> hd value_str = CHR ''('' \<and>
                                 last value_str = CHR '')''
                              then CHR ''-'' # butlast (tl value_str)
                              else value_str)
             in (case py_float value_str of
                   Some x \<Rightarrow> Inr x
                 | None \<Rightarrow> Inr VNone))"

subsection \<open>Logic functions\<close>

text \<open>The loop of \<open>map_values\<close> over the items of the mapping.\<close>

fun lookup_ci :: "string \<Rightarrow> (string \<times> val) list \<Rightarrow> val option" where
  "lookup_ci s [] = None"
| "lookup_ci s ((k, x) # rest) = (if lower k = s then Some x else lookup_ci s rest)"

definition map_values :: "libs \<Rightarrow> val \<Rightarrow> (string \<times> val) list \<Rightarrow> kwargs \<Rightarrow> error + val" where
  "map_values L v params kw =
     (if pd_isna v then Inr (dict_get params ''default'' (VStr []))
      else
        let mapping = dict_get params ''mapping_dict'' (VDict []);
            dflt = dict_get params ''default'' (VStr (py_str L v));
            value_str = lower (strip (py_str L v))
        in (case mapping of
              VDict m \<Rightarrow> (case lookup_ci value_str m of Some x \<Rightarrow> Inr x | None \<Rightarrow> Inr dflt)
            | _ \<Rightarrow> Inl (Error ''AttributeError: items'')))"

definition conditional_fill :: "libs \<Rightarrow> val \<Rightarrow> (string \<times> val) list \<Rightarrow> kwargs \<Rightarrow> error + val" where
  "conditional_fill L v params kw =
     (if pd_isna v \<or> strip (py_str L v) = []
      then
        let fallback_col = dict_get params ''fallback_col'' VNone
        in (case (kw_row kw, fallback_col) of
              (Some row, VStr c) \<Rightarrow>
                (case (if c = [] then None else map_of row c) of
                   Some x \<Rightarrow> Inr x
                 | None \<Rightarrow> Inr (dict_get params ''default'' (VStr [])))
            | _ \<Rightarrow> Inr (dict_get params ''default'' (VStr [])))
      else Inr v)"

subsection \<open>Enrichment and validation functions\<close>

definition place :: "string \<Rightarrow> string \<Rightarrow> string \<Rightarrow> val" where
  "place city state country =
     VDict [(''city'', VStr city), (''state'', VStr state), (''country'', VStr country)]"

definition mock_data :: "(string \<times> val) list" where
  "mock_data =
     [(''400001'', place ''Mumbai'' ''Maharashtra'' ''India''),
      (''110001'', place ''New Delhi'' ''Delhi'' ''India''),
      (''560001'', place ''Bangalore'' ''Karnataka'' ''India''),
      (''600001'', place ''Chennai'' ''Tamil Nadu'' ''India''),
      (''700001'', place ''Kolkata'' ''West Bengal'' ''India''),
      (''500001'', place ''Hyderabad'' ''Telangana'' ''India''),
      (''380001'', place ''Ahmedabad'' ''Gujarat'' ''India''),
      (''411001'', place ''Pune'' ''Maharashtra'' ''India'')]"

definition lookup_pincode :: "libs \<Rightarrow> val \<Rightarrow> (string \<times> val) list \<Rightarrow> kwargs \<Rightarrow> error + val" where
  "lookup_pincode L v params kw =
     (if pd_isna v then Inr (place [] [] [])
      else Inr (dict_get mock_data (strip (py_str L v)) (place [] [] ''India'')))"

definition gstin_result :: "bool \<Rightarrow> string \<Rightarrow> string \<Rightarrow> string \<Rightarrow> val" where
  "gstin_result ok state_code pan err =
     VDict [(''is_valid'', VBool ok), (''state_code'', VStr state_code), (''pan'', VStr pan),
            (''error'', VStr err)]"

definition is_upper_or_digit :: "char \<Rightarrow> bool" where
  "is_upper_or_digit c = (is_upper c \<or> is_digit c)"

text \<open>
  The GSTIN pattern on a text of 15 characters: two digits, five capitals, four digits,
  a capital, a capital or digit, \<open>Z\<close>, a capital or digit.
\<close>

definition gstin_pattern :: "string \<Rightarrow> bool" where
  "gstin_pattern g =
     (length g = 15 \<and>
      list_all is_digit (take 2 g) \<and>
      list_all is_upper (take 5 (drop 2 g)) \<and>
      list_all is_digit (take 4 (drop 7 g)) \<and>
      list_all is_upper (take 1 (drop 11 g)) \<and>
      list_all is_upper_or_digit (take 1 (drop 12 g)) \<and>
      take 1 (drop 13 g) = ''Z'' \<and>
      list_all is_upper_or_digit (take 1 (drop 14 g)))"

definition validate_gstin :: "libs \<Rightarrow> val \<Rightarrow> (string \<times> val) list \<Rightarrow> kwargs \<Rightarrow> error + val" where
  "validate_gstin L v params kw =
     (if pd_isna v then Inr (gstin_result False [] [] ''Empty value'')
      else
        let gstin = upper (strip (py_str L v))
        in if length gstin \<noteq> 15
           then Inr (gstin_result False [] []
                       (''Invalid length: '' @ string_of_nat (length gstin) @ '' (expected 15)''))
           else if \<not> gstin_pattern gstin
           then Inr (gstin_result False [] [] ''Invalid format'')
           else Inr (gstin_result True (take 2 gstin) (take 10 (drop 2 gstin)) []))"

definition email_result :: "bool \<Rightarrow> string \<Rightarrow> string \<Rightarrow> val" where
  "email_result ok normalized err =
     VDict [(''is_valid'', VBool ok), (''normalized'', VStr normalized), (''error'', VStr err)]"

definition is_alnum :: "char \<Rightarrow> bool" where
  "is_alnum c = (is_upper c \<or> is_lower c \<or> is_digit c)"

definition local_char :: "char \<Rightarrow> bool" where
  "local_char c = (is_alnum c \<or> c \<in> set ''_.+-'')"

definition domain_char :: "char \<Rightarrow> bool" where
  "domain_char c = (is_alnum c \<or> c = CHR ''-'')"

definition tail_char :: "char \<Rightarrow> bool" where
  "tail_char c = (is_alnum c \<or> c = CHR ''-'' \<or> c = CHR ''.'')"

text \<open>
  The e-mail pattern: characters of the local part up to the first \<open>@\<close>, characters
  of the domain up to its first dot, then at least one more character of the tail
  class up to the end, where \<open>$\<close> also accepts one final newline.
\<close>

definition email_pattern :: "string \<Rightarrow> bool" where
  "email_pattern s =
     (case cut (\<lambda>c. c = CHR ''@'') s of
        (local_part, Some rest) \<Rightarrow>
          local_part \<noteq> [] \<and> list_all local_char local_part \<and>
          (case cut (\<lambda>c. c = CHR ''.'') rest of
             (domain, Some tl_part) \<Rightarrow>
               domain \<noteq> [] \<and> list_all domain_char domain \<and>
               (let body = (if tl_part \<noteq> [] \<and> last tl_part = CHR 0x0A
                            then butlast tl_part else tl_part)
                in body \<noteq> [] \<and> list_all tail_char body)
           | _ \<Rightarrow> False)
      | _ \<Rightarrow> False)"

definition validate_email :: "libs \<Rightarrow> val \<Rightarrow> (string \<times> val) list \<Rightarrow> kwargs \<Rightarrow> error + val" where
  "validate_email L v params kw =
     (if pd_isna v then Inr (email_result False [] ''Empty value'')
      else
        let email = lower (strip (py_str L v))
        in if email_pattern email then Inr (email_result True email [])
           else Inr (email_result False [] ''Invalid email format''))"

definition normalize_phone :: "libs \<Rightarrow> val \<Rightarrow> (string \<times> val) list \<Rightarrow> kwargs \<Rightarrow> error + val" where
  "normalize_phone L v params kw =
     (if pd_isna v then Inr (VStr [])
      else
        let phone_str = strip (py_str L v)
        in if phone_str = [] then Inr (VStr [])
           else
             let region = dict_get params ''region'' (VStr ''IN'');
                 output_format = dict_get params ''format'' (VStr ''E.164'')
             in (case phone_parse L phone_str region of
                   None \<Rightarrow> Inr (VStr phone_str)
                 | Some parsed \<Rightarrow>
                     if \<not> phone_is_valid L parsed then Inr (VStr phone_str)
                     else if output_format = VStr ''NATIONAL''
                     then Inr (VStr (phone_format L parsed ''NATIONAL''))
                     else if output_format = VStr ''INTERNATIONAL''
                     then Inr (VStr (phone_format L parsed ''INTERNATIONAL''))
                     else Inr (VStr (phone_format L parsed ''E164''))))"

subsection \<open>The registry\<close>

type_synonym registry_function = "libs \<Rightarrow> val \<Rightarrow> (string \<times> val) list \<Rightarrow> kwargs \<Rightarrow> error + val"

text \<open>\<open>register\<close> stores a function under its name in capitals; a later one replaces
  an earlier one of the same name.\<close>

definition register :: "string \<Rightarrow> registry_function \<Rightarrow> (string \<times> registry_function) list \<Rightarrow> (string \<times> registry_function) list" where
  "register name func fs = dict_set (upper name) func fs"

definition registered_functions :: "(string \<times> registry_function) list" where
  "registered_functions =
     (register ''COMPUTE_DATE_DIFF'' compute_date_diff
     (register ''CONCATENATE'' concatenate
     (register ''TRIM'' trim
     (register ''TITLECASE'' titlecase
     (register ''LOWERCASE'' lowercase
     (register ''UPPERCASE'' uppercase
     (register ''NORMALIZE_PHONE'' normalize_phone
     (register ''VALIDATE_EMAIL'' validate_email
     (register ''VALIDATE_GSTIN'' validate_gstin
     (register ''LOOKUP_PINCODE'' lookup_pincode
     (register ''CONDITIONAL_FILL'' conditional_fill
     (register ''MAP_VALUES'' map_values
     (register ''NORMALIZE_CURRENCY'' normalize_currency
     (register ''FORMAT_DATE'' format_date
     (register ''SMART_DATE_PARSE'' smart_date_parse
     (register ''CLEAN_WHITESPACE'' clean_whitespace
     (register ''REGEX_EXTRACT'' regex_extract
     (register ''SPLIT_FULL_NAME'' split_full_name []))))))))))))))))))"

definition list_functions :: "string list" where
  "list_functions = map fst registered_functions"

definition registry_execute :: "libs \<Rightarrow> string \<Rightarrow> val \<Rightarrow> (string \<times> val) list \<Rightarrow> kwargs \<Rightarrow> error + val" where
  "registry_execute L name v params kw =
     (case map_of registered_functions (upper name) of
        None \<Rightarrow> Inl (Error (''Unknown function: '' @ name))
      | Some func \<Rightarrow> func L v params kw)"

text \<open>
  The value that each function documents for a missing input: the empty string, the
  null value, or the dictionary of empty fields that its first branch returns.
\<close>

definition empty_sentinel :: "string \<Rightarrow> val" where
  "empty_sentinel name =
     (if name = ''SPLIT_FULL_NAME'' then EMPTY_NAME
      else if name = ''LOOKUP_PINCODE'' then place [] [] []
      else if name = ''VALIDATE_GSTIN'' then gstin_result False [] [] ''Empty value''
      else if name = ''VALIDATE_EMAIL'' then email_result False [] ''Empty value''
      else if name \<in> set [''SMART_DATE_PARSE'', ''NORMALIZE_CURRENCY'', ''COMPUTE_DATE_DIFF'']
      then VNone
      else VStr [])"

text \<open>A library that knows nothing: no pattern matches, no date parses, no phone
  number is valid.\<close>

definition no_libs :: libs where
  "no_libs = \<lparr>
     re_search = (\<lambda>p s. Inr None),
     strptime = (\<lambda>s f. None),
     to_datetime = (\<lambda>s d. None),
     strftime = (\<lambda>d f. []),
     phone_parse = (\<lambda>s r. None),
     phone_is_valid = (\<lambda>p. False),
     phone_format = (\<lambda>p f. []),
     str_other = (\<lambda>v. [])\<rparr>"

section \<open>The execution engine\<close>

subsection \<open>Tables in a store\<close>

text \<open>
  The engine changes tables in place (\<open>df[col] = ...\<close>), so tables live in a store:
  a reference is an index into the list of all tables, \<open>df.copy()\<close> and
  \<open>pd.DataFrame()\<close> add a table at the end, and an assignment to a column
  replaces the table at its reference.
\<close>

type_synonym heap = "dataframe list"

definition alloc :: "dataframe \<Rightarrow> heap \<Rightarrow> nat \<times> heap" where
  "alloc df h = (length h, h @ [df])"

text \<open>
  A table of pandas may carry a label on several columns (the loader takes the
  labels from the header cells as they are). \<open>x[label]\<close> is then not one column but
  all the columns that carry the label, and likewise for a row.
\<close>

definition labelled :: "(string \<times> 'a) list \<Rightarrow> string \<Rightarrow> 'a list" where
  "labelled xs c = map snd (filter (\<lambda>p. fst p = c) xs)"

text \<open>
  \<open>df[col] = values\<close>: a new label adds a column at the end; under a label of the
  table the values replace the column, every column that carries the label.
\<close>

definition assign :: "string \<Rightarrow> val list \<Rightarrow> dataframe \<Rightarrow> dataframe" where
  "assign col vals df =
     (if col \<in> set (columns df)
      then map (\<lambda>p. if fst p = col then (col, vals) else p) df
      else df @ [(col, vals)])"

definition setitem :: "nat \<Rightarrow> string \<Rightarrow> val list \<Rightarrow> heap \<Rightarrow> heap" where
  "setitem r col vals h = h[r := assign col vals (h ! r)]"

definition key_error :: "string \<Rightarrow> error" where
  "key_error c = Error ([CHR 0x27] @ c @ [CHR 0x27])"

definition ambiguous_truth :: error where
  "ambiguous_truth =
     Error ''The truth value of a Series is ambiguous. Use a.empty, a.bool(), a.item(), a.any() or a.all().''"

text \<open>
  \<open>df[col]\<close> and \<open>row[col]\<close> where the first two phases hand the cells of a column,
  or the cell of a row, to a function of the registry. Under a repeated label the
  function is handed several cells in one value (a column in place of a cell, or the
  cells of the row under that label), and there is no such value in this model. A
  function that tests the value raises on it, as the test has no truth value: all
  functions of the registry test their first argument with \<open>pd.isna\<close>, and
  \<open>CONCATENATE\<close> tests each of its values. The model takes that course for every
  function, so the exception stands at the read. Tables without a repeated label
  never come here.
\<close>

definition getitem :: "(string \<times> 'a) list \<Rightarrow> string \<Rightarrow> error + 'a" where
  "getitem xs c =
     (case labelled xs c of
        [] \<Rightarrow> Inl (key_error c)
      | [v] \<Rightarrow> Inr v
      | _ \<Rightarrow> Inl ambiguous_truth)"

text \<open>The rows of a table, as \<open>df.apply(..., axis=1)\<close> passes them: name and value.\<close>

definition df_rows :: "dataframe \<Rightarrow> (string \<times> val) list list" where
  "df_rows df = map (\<lambda>i. map (\<lambda>c. (fst c, snd c ! i)) df) [0..<nrows df]"

text \<open>\<open>Series.apply\<close>: the function on every value, or the first exception.\<close>

fun map_result :: "('a \<Rightarrow> error + 'b) \<Rightarrow> 'a list \<Rightarrow> error + 'b list" where
  "map_result f [] = Inr []"
| "map_result f (x # xs) =
     (case f x of
        Inl e \<Rightarrow> Inl e
      | Inr y \<Rightarrow> (case map_result f xs of Inl e \<Rightarrow> Inl e | Inr ys \<Rightarrow> Inr (y # ys)))"

type_synonym registry = "string \<Rightarrow> val \<Rightarrow> (string \<times> val) list \<Rightarrow> kwargs \<Rightarrow> error + val"

subsection \<open>Transformations\<close>

definition dict_functions :: "string list" where
  "dict_functions = [''SPLIT_FULL_NAME'', ''VALIDATE_GSTIN'', ''VALIDATE_EMAIL'', ''LOOKUP_PINCODE'']"

text \<open>\<open>x.get(col, "") if isinstance(x, dict) else ""\<close>\<close>

definition expand_key :: "string \<Rightarrow> val \<Rightarrow> val" where
  "expand_key col x = (case x of VDict d \<Rightarrow> dict_get d col (VStr []) | _ \<Rightarrow> VStr [])"

text \<open>\<open>list(x.values())[0] if isinstance(x, dict) else x\<close>\<close>

definition first_value :: "val \<Rightarrow> error + val" where
  "first_value x =
     (case x of
        VDict [] \<Rightarrow> Inl (Error ''list index out of range'')
      | VDict (kv # rest) \<Rightarrow> Inr (snd kv)
      | _ \<Rightarrow> Inr x)"

definition transform_single_input :: "registry \<Rightarrow> Transformation \<Rightarrow> string \<Rightarrow> nat \<Rightarrow> heap \<Rightarrow> error + heap" where
  "transform_single_input reg t ic r h =
     (let df = h ! r; func_name = t_function t; params = t_params t
      in if func_name \<in> set dict_functions
         then
           (case getitem df ic of
              Inl e \<Rightarrow> Inl e
            | Inr cells \<Rightarrow>
                (case map_result (\<lambda>x. reg func_name x params no_kwargs) cells of
                   Inl e \<Rightarrow> Inl e
                 | Inr results \<Rightarrow>
                     if output_cols t \<noteq> []
                     then Inr (fold (\<lambda>col. setitem r col (map (expand_key col) results))
                                 (output_cols t) h)
                     else (case output_col t of
                             None \<Rightarrow> Inr h
                           | Some oc \<Rightarrow>
                               if oc = [] then Inr h
                               else (case map_result first_value results of
                                       Inl e \<Rightarrow> Inl e
                                     | Inr vs \<Rightarrow> Inr (setitem r oc vs h)))))
         else
           let oc = or_default (output_col t) ic
           in if func_name = ''CONDITIONAL_FILL''
              then
                (case map_result
                        (\<lambda>row. case getitem row ic of
                                  Inl e \<Rightarrow> Inl e
                                | Inr x \<Rightarrow> reg func_name x params
                                              \<lparr>kw_row = Some row, kw_values = None\<rparr>)
                        (df_rows df) of
                   Inl e \<Rightarrow> Inl e
                 | Inr vs \<Rightarrow> Inr (setitem r oc vs h))
              else
                (case getitem df ic of
                   Inl e \<Rightarrow> Inl e
                 | Inr cells \<Rightarrow>
                     (case map_result (\<lambda>x. reg func_name x params no_kwargs) cells of
                        Inl e \<Rightarrow> Inl e
                      | Inr vs \<Rightarrow> Inr (setitem r oc vs h))))"

definition transform_multi_input :: "registry \<Rightarrow> Transformation \<Rightarrow> nat \<Rightarrow> heap \<Rightarrow> error + heap" where
  "transform_multi_input reg t r h =
     (if input_cols t = [] then Inr h
      else
        (case output_col t of
           None \<Rightarrow> Inr h
         | Some oc \<Rightarrow>
             if oc = [] then Inr h
             else
               (case map_result
                       (\<lambda>row. case map_result (getitem row)
                                       (filter (\<lambda>c. c \<in> set (map fst row)) (input_cols t)) of
                                 Inl e \<Rightarrow> Inl e
                               | Inr vals \<Rightarrow>
                                   reg (t_function t) VNone (t_params t)
                                     \<lparr>kw_row = Some row, kw_values = Some vals\<rparr>)
                       (df_rows (h ! r)) of
                  Inl e \<Rightarrow> Inl e
                | Inr vs \<Rightarrow> Inr (setitem r oc vs h))))"

definition apply_single_transformation :: "registry \<Rightarrow> Transformation \<Rightarrow> nat \<Rightarrow> heap \<Rightarrow> error + heap" where
  "apply_single_transformation reg t r h =
     (case input_col t of
        None \<Rightarrow> transform_multi_input reg t r h
      | Some ic \<Rightarrow>
          if ic \<noteq> [] \<and> ic \<in> set (columns (h ! r)) then transform_single_input reg t ic r h
          else transform_multi_input reg t r h)"

text \<open>
  The loops over the steps of a plan: a step that raises leaves the table as it was
  and adds a warning.
\<close>

fun apply_transformations :: "registry \<Rightarrow> Transformation list \<Rightarrow> nat \<Rightarrow> heap \<times> string list \<Rightarrow> heap \<times> string list" where
  "apply_transformations reg [] r hw = hw"
| "apply_transformations reg (t # ts) r (h, ws) =
     (case apply_single_transformation reg t r h of
        Inl e \<Rightarrow>
          apply_transformations reg ts r
            (h, ws @ [''Transformation '' @ t_id t @ '' failed: '' @ str_of_error e])
      | Inr h' \<Rightarrow> apply_transformations reg ts r (h', ws))"

subsection \<open>Enrichments\<close>

definition enrichment_function :: "string \<Rightarrow> string" where
  "enrichment_function service =
     (if service = ''postal_code_lookup'' \<or> service = ''pincode_lookup'' then ''LOOKUP_PINCODE''
      else upper service)"

text \<open>\<open>x.get(col_lower, x.get(col, "")) if isinstance(x, dict) else ""\<close>\<close>

definition expand_enriched :: "string \<Rightarrow> val \<Rightarrow> val" where
  "expand_enriched col x =
     (case x of
        VDict d \<Rightarrow> dict_get d (lower col) (dict_get d col (VStr []))
      | _ \<Rightarrow> VStr [])"

definition apply_single_enrichment :: "registry \<Rightarrow> Enrichment \<Rightarrow> nat \<Rightarrow> heap \<Rightarrow> error + heap" where
  "apply_single_enrichment reg en r h =
     (if trigger_col en \<notin> set (columns (h ! r)) then Inr h
      else
        (case getitem (h ! r) (trigger_col en) of
           Inl e \<Rightarrow> Inl e
         | Inr cells \<Rightarrow>
             (case map_result (\<lambda>x. reg (enrichment_function (api_service en)) x (e_params en) no_kwargs)
                     cells of
                Inl e \<Rightarrow> Inl e
              | Inr results \<Rightarrow>
                  Inr (fold (\<lambda>col. setitem r col (map (expand_enriched col) results))
                         (target_cols en) h))))"

fun apply_enrichments :: "registry \<Rightarrow> Enrichment list \<Rightarrow> nat \<Rightarrow> heap \<times> string list \<Rightarrow> heap \<times> string list" where
  "apply_enrichments reg [] r hw = hw"
| "apply_enrichments reg (en # ens) r (h, ws) =
     (case apply_single_enrichment reg en r h of
        Inl e \<Rightarrow>
          apply_enrichments reg ens r
            (h, ws @ [''Enrichment '' @ e_id en @ '' failed: '' @ str_of_error e])
      | Inr h' \<Rightarrow> apply_enrichments reg ens r (h', ws))"

subsection \<open>Column mappings\<close>

text \<open>
  \<open>target_df[target] = df[source]\<close>. When the label \<open>source\<close> is on several columns
  of the table, \<open>df[source]\<close> is a table of several columns, and pandas refuses to
  assign it to one column: the assignment raises \<open>ValueError\<close>, which nothing in the
  engine catches.
\<close>

definition copy_column :: "dataframe \<Rightarrow> string \<Rightarrow> string \<Rightarrow> dataframe \<Rightarrow> error + dataframe" where
  "copy_column df source target target_df =
     (case labelled df source of
        [] \<Rightarrow> Inl (key_error source)
      | [vs] \<Rightarrow> Inr (assign target vs target_df)
      | _ \<Rightarrow>
          Inl (Error (if target \<in> set (columns target_df)
                      then ''Columns must be same length as key''
                      else ''Cannot set a DataFrame with multiple columns to the single column ''
                           @ target)))"

text \<open>
  One pass of the loop over the mappings: what it does to the target table, given
  the table it reads.
\<close>

definition project_step :: "dataframe \<Rightarrow> ColumnMapping \<Rightarrow> dataframe \<Rightarrow> error + dataframe" where
  "project_step df m target_df =
     (let source = source_col m; target = target_col m
      in case action m of
           Skip \<Rightarrow> Inr target_df
         | Direct \<Rightarrow>
             if source \<in> set (columns df) then copy_column df source target target_df
             else if target \<in> set (columns df) then copy_column df target target target_df
             else Inr target_df
         | Transform \<Rightarrow>
             if target \<in> set (columns df) then copy_column df target target target_df
             else if source \<in> set (columns df) then copy_column df source target target_df
             else Inr target_df)"

text \<open>One pass of the loop that adds the columns made by enrichments.\<close>

definition enriched_step :: "TransformationPlan \<Rightarrow> dataframe \<Rightarrow> string \<Rightarrow> dataframe \<Rightarrow> error + dataframe" where
  "enriched_step plan df col target_df =
     (if col \<notin> set (map target_col (column_mappings plan)) \<and>
         col \<notin> set (columns target_df) \<and>
         list_ex (\<lambda>en. col \<in> set (target_cols en)) (enrichments plan)
      then copy_column df col col target_df
      else Inr target_df)"

text \<open>The same passes in the store: \<open>r\<close> is the table read, \<open>rt\<close> the target.\<close>

definition apply_mapping :: "nat \<Rightarrow> nat \<Rightarrow> ColumnMapping \<Rightarrow> heap \<Rightarrow> error + heap" where
  "apply_mapping r rt m h =
     (case project_step (h ! r) m (h ! rt) of
        Inl e \<Rightarrow> Inl e
      | Inr target_df \<Rightarrow> Inr (h[rt := target_df]))"

definition add_enriched :: "TransformationPlan \<Rightarrow> nat \<Rightarrow> nat \<Rightarrow> string \<Rightarrow> heap \<Rightarrow> error + heap" where
  "add_enriched plan r rt col h =
     (case enriched_step plan (h ! r) col (h ! rt) of
        Inl e \<Rightarrow> Inl e
      | Inr target_df \<Rightarrow> Inr (h[rt := target_df]))"

text \<open>
  A loop whose passes may raise: it stops at the first exception, with the state as
  the passes before it left it.
\<close>

fun run_steps :: "('a \<Rightarrow> 's \<Rightarrow> error + 's) \<Rightarrow> 'a list \<Rightarrow> 's \<Rightarrow> error option \<times> 's" where
  "run_steps step [] s = (None, s)"
| "run_steps step (x # xs) s =
     (case step x s of
        Inl e \<Rightarrow> (Some e, s)
      | Inr s' \<Rightarrow> run_steps step xs s')"

text \<open>
  \<open>_apply_column_mappings\<close>: the reference of the table it returns, or the exception
  that leaves it.
\<close>

definition apply_column_mappings :: "TransformationPlan \<Rightarrow> nat \<Rightarrow> heap \<Rightarrow> (error + nat) \<times> heap" where
  "apply_column_mappings plan r h =
     (case alloc [] h of (rt, h) \<Rightarrow>
        (case run_steps (apply_mapping r rt) (column_mappings plan) h of
           (Some e, h) \<Rightarrow> (Inl e, h)
         | (None, h) \<Rightarrow>
             (case run_steps (add_enriched plan r rt) (columns (h ! r)) h of
                (Some e, h) \<Rightarrow> (Inl e, h)
              | (None, h) \<Rightarrow> (Inr (if \<not> df_empty (h ! rt) then rt else r), h))))"

subsection \<open>Executing a plan\<close>

text \<open>
  How \<open>execute\<close> ends: \<open>raised\<close> is the exception that leaves it, if one does, and
  \<open>result_ref\<close> is the table that its variable \<open>result_df\<close> refers to at the end, which
  is the table returned when nothing is raised, and the copy that the first two
  phases worked on when the third phase raises.
\<close>

record execution =
  raised :: "error option"
  result_ref :: nat
  result_errors :: "string list"
  result_warnings :: "string list"
  result_heap :: heap

text \<open>The table as the first two phases leave it, at the reference of the copy.\<close>

definition intermediate :: "registry \<Rightarrow> nat \<Rightarrow> TransformationPlan \<Rightarrow> heap \<Rightarrow> heap \<times> string list" where
  "intermediate reg r plan h =
     (case alloc (h ! r) h of (rc, h) \<Rightarrow>
        apply_enrichments reg (enrichments plan) rc
          (apply_transformations reg (transformations plan) rc (h, [])))"

definition execute :: "registry \<Rightarrow> nat \<Rightarrow> TransformationPlan \<Rightarrow> heap \<Rightarrow> execution" where
  "execute reg r plan h =
     (case intermediate reg r plan h of (h', ws) \<Rightarrow>
        (case apply_column_mappings plan (length h) h' of
           (Inr res, h'') \<Rightarrow>
             \<lparr>raised = None, result_ref = res, result_errors = [], result_warnings = ws,
              result_heap = h''\<rparr>
         | (Inl e, h'') \<Rightarrow>
             \<lparr>raised = Some e, result_ref = length h, result_errors = [], result_warnings = ws,
              result_heap = h''\<rparr>))"





subsection \<open>Sample tables and plans\<close>

definition names_table :: dataframe where
  "names_table = [(''Name'', [VStr ''ann'', VStr ''bob'']), (''Pin'', [VStr ''400001'', VStr ''''])]"

definition uppercase_plan :: TransformationPlan where
  "uppercase_plan = \<lparr>
     confidence_score = 9 / 10,
     column_mappings = [\<lparr>source_col = ''Name'', target_col = ''name'', action = Direct,
                         transform_id = None\<rparr>],
     transformations = [\<lparr>t_id = ''tf_01'', t_function = ''UPPERCASE'', input_col = Some ''Name'',
                         input_cols = [], output_col = None, output_cols = [], t_params = []\<rparr>],
     enrichments = [], warnings = [], requires_user_input = False, user_questions = []\<rparr>"




subsection \<open>Relations between tables and between stores\<close>

text \<open>\<open>frame r h h'\<close>: the store \<open>h'\<close> has the tables of \<open>h\<close>, except possibly at \<open>r\<close>.\<close>

definition frame :: "nat \<Rightarrow> heap \<Rightarrow> heap \<Rightarrow> bool" where
  "frame r h h' = (length h' = length h \<and> (\<forall>q. q \<noteq> r \<longrightarrow> h' ! q = h ! q))"


definition all_of_length :: "nat \<Rightarrow> dataframe \<Rightarrow> bool" where
  "all_of_length n df = list_all (\<lambda>c. length (snd c) = n) df"

section \<open>The table matcher\<close>

subsection \<open>Text in Python\<close>

text \<open>
  Names and sample values are texts of Python, read here as their UTF-8 bytes. The
  functions of the language and of its libraries that the matcher calls on them, and
  whose result depends on the whole of Unicode (lower case, white space, digits, the
  numbers that \<open>float\<close> reads) or on an algorithm of a library (the ratio of
  \<open>difflib\<close>), are parameters of the matcher:
  \<^item> \<open>py_lower s\<close> is \<open>s.lower()\<close>, \<open>py_split s\<close> is \<open>s.split()\<close> and \<open>py_len s\<close> is \<open>len(s)\<close>;
  \<^item> \<open>py_split_separators s\<close> is \<open>re.split(r'[_\s\-\.]+', s)\<close>;
  \<^item> \<open>py_remove_space s\<close> is \<open>re.sub(r'\s', '', s)\<close>;
  \<^item> \<open>py_match_phone s\<close> says whether \<open>re.match(r'^[\+\d\s\-\(\)]{8,}$', s)\<close> matches;
  \<^item> \<open>py_search_date s\<close> says whether
    \<open>re.search(r'\d{1,4}[-/\.]\d{1,2}[-/\.]\d{1,4}', s)\<close> matches;
  \<^item> \<open>py_float_reads s\<close> says whether \<open>float(s)\<close> returns;
  \<^item> \<open>py_ratio a b\<close> is \<open>SequenceMatcher(None, a, b).ratio()\<close>.

  Scores are floats in the code and real numbers here.
\<close>

record pylib =
  py_lower :: "string \<Rightarrow> string"
  py_split :: "string \<Rightarrow> string list"
  py_len :: "string \<Rightarrow> nat"
  py_split_separators :: "string \<Rightarrow> string list"
  py_remove_space :: "string \<Rightarrow> string"
  py_match_phone :: "string \<Rightarrow> bool"
  py_search_date :: "string \<Rightarrow> bool"
  py_float_reads :: "string \<Rightarrow> bool"
  py_ratio :: "string \<Rightarrow> string \<Rightarrow> real"

subsection \<open>Names, keywords and types\<close>

text \<open>
  \<open>_normalize_column_name\<close>: \<open>name.lower()\<close>, then everything but \<open>a\<close> to \<open>z\<close> and \<open>0\<close>
  to \<open>9\<close> is removed. What is left is made of the letters and digits of ASCII in the
  name, the capitals in lower case, and of the letters that the lower case of a
  character outside ASCII has in ASCII. There are two such characters in Unicode:
  the Kelvin sign U+212A (bytes E2 84 AA), whose lower case is \<open>k\<close>, and the capital
  I with a dot above U+0130 (bytes C4 B0), whose lower case is \<open>i\<close> followed by a
  combining dot.
\<close>

definition lower_alnum :: "char \<Rightarrow> string" where
  "lower_alnum c =
     (if is_upper c then [to_lower c] else if is_lower c \<or> is_digit c then [c] else [])"

fun normalize_column_name :: "string \<Rightarrow> string" where
  "normalize_column_name (a # b # c # rest) =
     (if a = CHR 0xE2 \<and> b = CHR 0x84 \<and> c = CHR 0xAA
      then CHR ''k'' # normalize_column_name rest
      else if a = CHR 0xC4 \<and> b = CHR 0xB0
      then CHR ''i'' # normalize_column_name (c # rest)
      else lower_alnum a @ normalize_column_name (b # c # rest))"
| "normalize_column_name [a, b] =
     (if a = CHR 0xC4 \<and> b = CHR 0xB0 then ''i'' else lower_alnum a @ lower_alnum b)"
| "normalize_column_name [a] = lower_alnum a"
| "normalize_column_name [] = []"

text \<open>\<open>re.sub('([A-Z])', r' \1', w)\<close>: a space before every capital.\<close>

definition space_capitals :: "string \<Rightarrow> string" where
  "space_capitals w = concat (map (\<lambda>c. if is_upper c then [CHR '' '', c] else [c]) w)"

definition extract_keywords :: "pylib \<Rightarrow> string \<Rightarrow> string list" where
  "extract_keywords L name =
     map (py_lower L)
       (filter (\<lambda>w. py_len L w > 1)
          (concat (map (\<lambda>w. py_split L (space_capitals w))
                     (py_split_separators L (py_lower L name)))))"

text \<open>
  \<open>_infer_semantic_type\<close>. Its e-mail pattern is the one of \<open>VALIDATE_EMAIL\<close>; the
  phone pattern is tried on the value without its white space, and a value is numeric
  when \<open>float\<close> reads it once commas, dollar signs and rupee signs are removed.
\<close>

definition is_numeric :: "pylib \<Rightarrow> string \<Rightarrow> bool" where
  "is_numeric L v =
     py_float_reads L
       (replace [CHR 0xE2, CHR 0x82, CHR 0xB9] [] (replace ''$'' [] (replace '','' [] v)))"

definition count_where :: "('a \<Rightarrow> bool) \<Rightarrow> 'a list \<Rightarrow> nat" where
  "count_where P xs = length (filter P xs)"

definition infer_semantic_type :: "pylib \<Rightarrow> string list \<Rightarrow> string" where
  "infer_semantic_type L samples =
     (if samples = [] then ''string''
      else
        let n = real (length samples);
            email_count = count_where email_pattern samples;
            phone_count = count_where (\<lambda>v. py_match_phone L (py_remove_space L v)) samples;
            date_count = count_where (py_search_date L) samples
        in if real email_count / n \<ge> 1 / 2 then ''email''
           else if real phone_count / n \<ge> 1 / 2 then ''phone''
           else if real date_count / n \<ge> 1 / 2 then ''date''
           else if real (count_where (is_numeric L) samples) / n \<ge> 1 / 2
           then (if list_ex (\<lambda>v. CHR ''.'' \<in> set v) samples then ''float'' else ''integer'')
           else ''string'')"

definition compatible_groups :: "string list list" where
  "compatible_groups =
     [[''string'', ''name'', ''first_name'', ''last_name'', ''full_name'', ''address'', ''city'',
       ''state'', ''country''],
      [''integer'', ''float'', ''number'', ''currency'', ''quantity''],
      [''phone'', ''phone_number'', ''mobile''],
      [''email'', ''email_address''],
      [''date'', ''datetime'', ''timestamp'']]"

definition types_compatible :: "string \<Rightarrow> string \<Rightarrow> bool" where
  "types_compatible source_type target_type =
     list_ex (\<lambda>g. source_type \<in> set g \<and> target_type \<in> set g) compatible_groups"

subsection \<open>The score of a pair of columns\<close>

text \<open>
  The loop over the common source names: \<open>Inl\<close> is the early return of 0.95, \<open>Inr\<close>
  the score after the loop. \<open>x in y\<close> on text is \<open>sublist x y\<close>.
\<close>

fun common_names_score :: "string \<Rightarrow> string list \<Rightarrow> real \<Rightarrow> real + real" where
  "common_names_score source_norm [] score = Inr score"
| "common_names_score source_norm (common_name # rest) score =
     (let common_norm = normalize_column_name common_name
      in if source_norm = common_norm then Inl (95 / 100)
         else if sublist common_norm source_norm \<or> sublist source_norm common_norm
         then common_names_score source_norm rest (max score (8 / 10))
         else common_names_score source_norm rest score)"

definition keyword_score :: "pylib \<Rightarrow> string \<Rightarrow> string \<Rightarrow> real option" where
  "keyword_score L src_col tgt_col =
     (let source_keywords = remdups (extract_keywords L src_col);
          target_keywords = remdups (extract_keywords L tgt_col);
          shared = filter (\<lambda>w. w \<in> set target_keywords) source_keywords
      in if shared = [] then None
         else Some (6 / 10 * (real (length shared) /
                               real (max (length source_keywords) (length target_keywords)))
                    + 3 / 10))"

text \<open>\<open>_calculate_column_match_score\<close>\<close>

definition calculate_column_match_score :: "pylib \<Rightarrow> string \<Rightarrow> string \<Rightarrow> string list \<Rightarrow> string \<Rightarrow> string list \<Rightarrow> real" where
  "calculate_column_match_score L src_col tgt_col common_names target_type samples =
     (let source_norm = normalize_column_name src_col;
          target_norm = normalize_column_name tgt_col
      in if source_norm = target_norm then 1
         else
           (case common_names_score source_norm common_names 0 of
              Inl score \<Rightarrow> score
            | Inr score \<Rightarrow>
                let score = max score (py_ratio L source_norm target_norm * (9 / 10));
                    score =
                      (if samples \<noteq> []
                       then (let inferred_type = infer_semantic_type L samples
                             in if inferred_type = target_type then max score (7 / 10)
                                else if types_compatible inferred_type target_type
                                then max score (5 / 10)
                                else score)
                       else score)
                in (case keyword_score L src_col tgt_col of
                      None \<Rightarrow> score
                    | Some k \<Rightarrow> max score k)))"

subsection \<open>Matching a table\<close>

text \<open>\<open>{col.name: col for col in target_schema.columns}\<close>\<close>

definition target_cols_dict :: "TargetSchema \<Rightarrow> (string \<times> TargetColumn) list" where
  "target_cols_dict schema = fold (\<lambda>col d. dict_set (tc_name col) col d) (ts_columns schema) []"

text \<open>
  The inner loop: the best unclaimed target column for one source column, from the
  best found so far.
\<close>

fun best_target :: "pylib \<Rightarrow> string \<Rightarrow> string list \<Rightarrow> string list \<Rightarrow> (string \<times> TargetColumn) list \<Rightarrow> string option \<times> real \<Rightarrow> string option \<times> real" where
  "best_target L src_col samples claimed [] best = best"
| "best_target L src_col samples claimed (item # rest) best =
     (if fst item \<in> set claimed then best_target L src_col samples claimed rest best
      else
        let score = calculate_column_match_score L src_col (fst item)
                      (common_source_names (snd item)) (data_type (snd item)) samples
        in if score > snd best
           then best_target L src_col samples claimed rest (Some (fst item), score)
           else best_target L src_col samples claimed rest best)"

definition samples_of :: "DetectedTable \<Rightarrow> string \<Rightarrow> string list" where
  "samples_of t src_col =
     (case map_of (sample_values t) src_col of Some vs \<Rightarrow> vs | None \<Rightarrow> [])"

text \<open>
  The outer loop over the source columns; the state is the list of matched pairs and
  the claimed target columns.
\<close>

fun match_columns :: "pylib \<Rightarrow> DetectedTable \<Rightarrow> (string \<times> TargetColumn) list \<Rightarrow> string list \<Rightarrow> (string \<times> string) list \<times> string list \<Rightarrow> (string \<times> string) list \<times> string list" where
  "match_columns L t tcs [] state = state"
| "match_columns L t tcs (src_col # rest) (matched, claimed) =
     (case best_target L src_col (samples_of t src_col) claimed tcs (None, 0) of
        (Some best_match, best_score) \<Rightarrow>
          if best_match \<noteq> [] \<and> best_score \<ge> 4 / 10
          then match_columns L t tcs rest
                 (matched @ [(src_col, best_match)], claimed @ [best_match])
          else match_columns L t tcs rest (matched, claimed)
      | (None, best_score) \<Rightarrow> match_columns L t tcs rest (matched, claimed))"

definition matching :: "pylib \<Rightarrow> DetectedTable \<Rightarrow> TargetSchema \<Rightarrow> (string \<times> string) list \<times> string list" where
  "matching L t schema =
     match_columns L t (target_cols_dict schema) (column_names t) ([], [])"

definition required_matched :: "pylib \<Rightarrow> DetectedTable \<Rightarrow> TargetSchema \<Rightarrow> int" where
  "required_matched L t schema =
     int (length (filter (\<lambda>col. required col \<and> tc_name col \<in> set (snd (matching L t schema)))
                    (ts_columns schema)))"

definition required_score :: "pylib \<Rightarrow> DetectedTable \<Rightarrow> TargetSchema \<Rightarrow> real" where
  "required_score L t schema =
     (let required_total = int (length (required_columns schema))
      in if required_total > 0
         then real_of_int (required_matched L t schema) / real_of_int required_total
         else 1)"

definition optional_score :: "pylib \<Rightarrow> DetectedTable \<Rightarrow> TargetSchema \<Rightarrow> real" where
  "optional_score L t schema =
     (let total_target = int (length (ts_columns schema));
          matched_count = int (length (fst (matching L t schema)));
          required_total = int (length (required_columns schema));
          optional_matched_count = matched_count - required_matched L t schema;
          optional_total = total_target - required_total
      in if optional_total > 0
         then real_of_int optional_matched_count / real_of_int optional_total
         else 1)"

definition match_table_to_schema :: "pylib \<Rightarrow> DetectedTable \<Rightarrow> TargetSchema \<Rightarrow> TableMatch" where
  "match_table_to_schema L t schema =
     (let m = matching L t schema
      in \<lparr>m_table_id = table_id t,
          m_target_schema_name = ts_name schema,
          match_score = 6 / 10 * required_score L t schema +
                        4 / 10 * optional_score L t schema,
          matched_columns = fst m,
          unmatched_source_cols =
            filter (\<lambda>s. s \<notin> set (map fst (fst m))) (column_names t),
          unmatched_target_cols =
            map tc_name (filter (\<lambda>col. tc_name col \<notin> set (snd m) \<and> required col)
                           (ts_columns schema))\<rparr>)"

text \<open>
  What the outer loop keeps true of its state: the claimed target columns are those
  of the matched pairs, each claimed once, and each a column of the schema.
\<close>

definition matching_inv :: "(string \<times> TargetColumn) list \<Rightarrow> (string \<times> string) list \<times> string list \<Rightarrow> bool" where
  "matching_inv tcs st = (map snd (fst st) = snd st \<and> distinct (snd st) \<and> set (snd st) \<subseteq> fst ` set tcs)"

subsection \<open>The score in the words of the specification\<close>

text \<open>
  The weighted sum of the share of required target columns that are matched and the
  share of optional target columns that are matched, each share being 1 when there
  is no such column. The required columns are those that the schema lists as
  required, the optional ones are the other columns of the schema, and a target
  column is matched when a source column has claimed it.
\<close>

definition share :: "nat \<Rightarrow> nat \<Rightarrow> real" where
  "share k n = (if n = 0 then 1 else real k / real n)"

definition spec_match_score :: "string set \<Rightarrow> TargetSchema \<Rightarrow> real" where
  "spec_match_score claimed_targets schema =
     (let req = set (required_columns schema);
          opt = set (map tc_name (ts_columns schema)) - req
      in 6 / 10 * share (card (claimed_targets \<inter> req)) (card req) +
         4 / 10 * share (card (claimed_targets \<inter> opt)) (card opt))"

text \<open>
  A schema is consistent when its columns have different names and its list of
  required columns names, each once, the columns flagged as required.
\<close>

definition consistent_schema :: "TargetSchema \<Rightarrow> bool" where
  "consistent_schema schema =
     (distinct (map tc_name (ts_columns schema)) \<and>
      distinct (required_columns schema) \<and>
      set (required_columns schema) = set (map tc_name (filter required (ts_columns schema))))"

subsection \<open>Sample schemas and tables\<close>

text \<open>
  The text functions on texts of ASCII, for the sample tables. The similarity ratio
  of this sample is that of texts with nothing in common.
\<close>

definition is_separator :: "char \<Rightarrow> bool" where
  "is_separator c = (c = CHR ''_'' \<or> is_space c \<or> c = CHR ''-'' \<or> c = CHR ''.'')"

fun split_separators :: "bool \<Rightarrow> string \<Rightarrow> string \<Rightarrow> string list" where
  "split_separators in_run cur [] = [cur]"
| "split_separators in_run cur (c # cs) =
     (if is_separator c
      then (if in_run then split_separators True cur cs
            else cur # split_separators True [] cs)
      else split_separators False (cur @ [c]) cs)"

definition is_date_separator :: "char \<Rightarrow> bool" where
  "is_date_separator c = (c = CHR ''-'' \<or> c = CHR ''/'' \<or> c = CHR ''.'')"

fun date_pattern :: "string \<Rightarrow> bool" where
  "date_pattern (a # b # c # d # e # rest) =
     ((is_digit a \<and> is_date_separator b \<and> is_digit c \<and>
       ((is_date_separator d \<and> is_digit e) \<or>
        (is_digit d \<and> is_date_separator e \<and> (case rest of [] \<Rightarrow> False | f # fs \<Rightarrow> is_digit f))))
      \<or> date_pattern (b # c # d # e # rest))"
| "date_pattern s = False"

definition phone_char :: "char \<Rightarrow> bool" where
  "phone_char c = (c = CHR ''+'' \<or> is_digit c \<or> is_space c \<or> c = CHR ''-'' \<or>
                   c = CHR ''('' \<or> c = CHR '')'')"

definition phone_pattern :: "string \<Rightarrow> bool" where
  "phone_pattern s =
     (let body = (if s \<noteq> [] \<and> last s = CHR 0x0A then butlast s else s)
      in (8 \<le> length s \<and> list_all phone_char s) \<or> (8 \<le> length body \<and> list_all phone_char body))"

definition ascii_text :: pylib where
  "ascii_text = \<lparr>
     py_lower = lower,
     py_split = words_from [],
     py_len = length,
     py_split_separators = split_separators False [],
     py_remove_space = filter (\<lambda>c. \<not> is_space c),
     py_match_phone = phone_pattern,
     py_search_date = date_pattern,
     py_float_reads = (\<lambda>s. py_float s \<noteq> None),
     py_ratio = (\<lambda>a b. 0)\<rparr>"

definition clashing_schema :: TargetSchema where
  "clashing_schema = \<lparr>
     ts_name = ''Clashing'',
     ts_columns = [
       \<lparr>tc_name = ''first_name'', data_type = ''string'', required = False,
        common_source_names = []\<rparr>,
       \<lparr>tc_name = ''firstname'', data_type = ''string'', required = True,
        common_source_names = []\<rparr>],
     unique_columns = [],
     required_columns = [''firstname'']\<rparr>"

text \<open>
  A schema whose two columns are named by the Kelvin sign and by the letter \<open>k\<close>.
\<close>

definition kelvin_schema :: TargetSchema where
  "kelvin_schema = \<lparr>
     ts_name = ''Kelvin'',
     ts_columns = [
       \<lparr>tc_name = [CHR 0xE2, CHR 0x84, CHR 0xAA], data_type = ''string'', required = False,
        common_source_names = []\<rparr>,
       \<lparr>tc_name = ''k'', data_type = ''string'', required = True,
        common_source_names = []\<rparr>],
     unique_columns = [],
     required_columns = [''k'']\<rparr>"

definition k_table :: DetectedTable where
  "k_table = \<lparr>table_id = ''table_1'', column_names = [''k''],
              sample_values = [], header_row = 0\<rparr>"

definition firstname_table :: DetectedTable where
  "firstname_table = \<lparr>table_id = ''table_1'', column_names = [''firstname''],
                       sample_values = [], header_row = 0\<rparr>"

definition first_name_table :: DetectedTable where
  "first_name_table = \<lparr>table_id = ''table_1'', column_names = [''first_name''],
                        sample_values = [], header_row = 0\<rparr>"

section \<open>Properties of the orchestrator\<close>

subsection \<open>Traces of the stages\<close>

lemmas stage_defs = enter_stage_def set_status_def fail_with_def emit_def tick_def

lemma detect_trace: "\<exists>evs. trace (snd (stage_detect_tables E jw)) = trace (snd jw) @ SetStatus DETECTING_TABLES # evs"
  by (cases jw) (auto simp: stage_detect_tables_def stage_defs Let_def split: sum.splits option.splits)

lemma analyze_full_trace: "prefix (trace (snd jw)) (trace (snd (analyze_full_file E jw)))"
  by (cases jw) (auto simp: analyze_full_file_def stage_defs Let_def split: sum.splits)

lemma analyze_sel_trace: "prefix (trace (snd jw)) (trace (snd (analyze_selected_table E t jw)))"
  by (cases jw) (auto simp: analyze_selected_table_def stage_defs Let_def split: sum.splits)

lemma analyze_trace: "\<exists>evs. trace (snd (stage_analyze E jw)) = trace (snd jw) @ SetStatus ANALYZING # evs"
proof (cases jw)
  case (Pair job w)
  let ?jw = "(job\<lparr>status := ANALYZING, updated_at := clock w\<rparr>, emit (SetStatus ANALYZING) (tick w))"
  have "stage_analyze E jw = analyze_full_file E ?jw \<or> (\<exists>t. stage_analyze E jw = analyze_selected_table E t ?jw)"
    using Pair by (auto simp: stage_analyze_def enter_stage_def split: option.splits)
  moreover have "trace (snd ?jw) = trace w @ [SetStatus ANALYZING]" by (simp add: emit_def tick_def)
  ultimately have "prefix (trace w @ [SetStatus ANALYZING]) (trace (snd (stage_analyze E jw)))"
    using analyze_full_trace[of ?jw E] analyze_sel_trace[of ?jw E] by auto
  then show ?thesis using Pair by (auto simp: prefix_def)
qed

lemma plan_trace: "prefix (trace (snd jw)) (trace (snd (stage_plan E jw)))"
  by (cases jw) (auto simp: stage_plan_def stage_defs Let_def split: sum.splits)

lemma execute_body_trace: "prefix (trace w) (trace (snd (execute_body E job w)))"
  by (auto simp: execute_body_def run_engine_def emit_def Let_def split: option.splits sum.splits)

lemma execute_trace: "prefix (trace (snd jw)) (trace (snd (stage_execute E jw)))"
proof (induction E jw rule: stage_execute.induct)
  case (1 E job0 w0)
  let ?job = "job0\<lparr>status := EXECUTING, updated_at := clock w0\<rparr>"
  let ?w = "emit (SetStatus EXECUTING) (tick w0)"
  obtain r w' where b: "execute_body E ?job ?w = (r, w')" by (cases "execute_body E ?job ?w")
  have p1: "prefix (trace w0) (trace ?w)" by (simp add: emit_def tick_def)
  have p2: "prefix (trace ?w) (trace w')" using execute_body_trace[of ?w E ?job] b by simp
  have p: "prefix (trace w0) (trace w')" using p1 p2 by (rule prefix_order.trans)
  show ?case
  proof (cases r)
    case (Inr df)
    then show ?thesis using b p by (simp add: Let_def)
  next
    case (Inl e)
    show ?thesis
    proof (cases "retry_count ?job < max_retries ?job")
      case True
      have "prefix (trace w') (trace (snd (stage_execute E (?job\<lparr>retry_count := retry_count ?job + 1\<rparr>, w'))))"
        using "1.IH"[OF refl refl b[symmetric] Inl True] by simp
      then show ?thesis using b Inl True p by (auto simp: Let_def intro: prefix_order.trans)
    next
      case False
      then show ?thesis using b Inl p by (auto simp: Let_def stage_defs prefix_def)
    qed
  qed
qed

lemma validate_trace: "prefix (trace (snd jw)) (trace (snd (stage_validate_and_output E jw)))"
  by (cases jw) (auto simp: stage_validate_and_output_def stage_defs Let_def split: sum.splits option.splits)

lemma save_trace: "trace (snd (save_job jw)) = trace (snd jw)"
  by (cases jw) (simp add: save_job_def tick_def Let_def)

lemma stage_fallback_execution_trace:
  "\<exists>evs. trace (snd (stage_fallback_execution E jw)) = trace (snd jw) @ SetStatus EXECUTING # evs \<and>
         set evs \<subseteq> {Invoke SchemaAnalyst, Invoke CodeGenerator, Invoke Subprocess,
                    SetStatus FAILED, SetStatus COMPLETED}"
  by (cases jw) (auto simp: stage_fallback_execution_def fallback_generate_def fallback_run_script_def stage_defs Let_def split: sum.splits option.splits)

lemma stage_fallback_execution_prefix: "prefix (trace (snd jw)) (trace (snd (stage_fallback_execution E jw)))"
  using stage_fallback_execution_trace[of E jw] by (auto simp: prefix_def)

lemma stage_fallback_execution_verdict:
  "status (fst (stage_fallback_execution E jw)) = COMPLETED \<or>
   status (fst (stage_fallback_execution E jw)) = FAILED \<and>
   (\<exists>m. error_message (fst (stage_fallback_execution E jw)) = Some (''Fallback failed: '' @ m))"
  by (cases jw)
     (auto simp: stage_fallback_execution_def fallback_generate_def fallback_run_script_def
        stage_defs Let_def split: sum.splits option.splits)

lemma run_after_plan_trace: "prefix (trace (snd jw)) (trace (snd (run_after_plan E jw)))"
proof -
  have a: "prefix (trace (snd jw)) (trace (snd (stage_execute E jw)))" by (rule execute_trace)
  have b: "prefix (trace (snd (stage_execute E jw))) (trace (snd (stage_fallback_execution E (stage_execute E jw))))"
    by (rule stage_fallback_execution_prefix)
  have c: "prefix (trace (snd (stage_execute E jw))) (trace (snd (save_job (stage_validate_and_output E (stage_execute E jw)))))"
    by (simp add: save_trace validate_trace)
  show ?thesis
    using stage_fallback_execution_prefix[of jw E] prefix_order.trans[OF a b] prefix_order.trans[OF a c]
    by (simp add: run_after_plan_def Let_def)
qed

lemma run_job_first_event:
  "\<exists>evs. trace (snd (run_job E (job, w))) =
     trace w @ SetStatus (if multi_table_analysis job = None then DETECTING_TABLES else ANALYZING) # evs"
proof -
  define go where "go d = (if status (fst (stage_analyze E d)) = FAILED then stage_analyze E d
                           else run_after_plan E (stage_plan E (stage_analyze E d)))" for d
  define D where "D = stage_detect_tables E (job, w)"
  have rest: "prefix (trace (snd a)) (trace (snd (run_after_plan E (stage_plan E a))))" for a
    using plan_trace[of a E] run_after_plan_trace[of "stage_plan E a" E] by (rule prefix_order.trans)
  have from_analyze: "\<exists>evs. trace (snd (go d)) = trace (snd d) @ SetStatus ANALYZING # evs" for d
  proof -
    obtain evs where e: "trace (snd (stage_analyze E d)) = trace (snd d) @ SetStatus ANALYZING # evs"
      using analyze_trace by blast
    obtain more where "trace (snd (run_after_plan E (stage_plan E (stage_analyze E d)))) =
        trace (snd (stage_analyze E d)) @ more"
      using rest[of "stage_analyze E d"] by (auto simp: prefix_def)
    then show ?thesis using e by (simp add: go_def)
  qed
  have r1: "run_job E (job, w) = go (job, w)" if "multi_table_analysis job \<noteq> None"
    using that by (cases "multi_table_analysis job") (simp_all add: run_job_def run_before_plan_def Let_def go_def)
  have r2: "run_job E (job, w) = D"
    if "multi_table_analysis job = None" "status (fst D) = FAILED \<or> status (fst D) = SELECTING_TABLE"
    using that by (auto simp: run_job_def run_before_plan_def Let_def D_def)
  have r3: "run_job E (job, w) = go D"
    if "multi_table_analysis job = None" "\<not> (status (fst D) = FAILED \<or> status (fst D) = SELECTING_TABLE)"
    using that by (simp add: run_job_def run_before_plan_def Let_def D_def go_def)
  obtain evs where e: "trace (snd D) = trace w @ SetStatus DETECTING_TABLES # evs"
    using detect_trace[of E "(job, w)"] by (auto simp: D_def)
  show ?thesis
  proof (cases "multi_table_analysis job = None")
    case False
    then show ?thesis using from_analyze[of "(job, w)"] r1 by auto
  next
    case True
    show ?thesis
    proof (cases "status (fst D) = FAILED \<or> status (fst D) = SELECTING_TABLE")
      case True
      then show ?thesis using \<open>multi_table_analysis job = None\<close> e r2 by simp
    next
      case False
      obtain more where "trace (snd (go D)) = trace (snd D) @ SetStatus ANALYZING # more"
        using from_analyze[of D] by blast
      then show ?thesis using e True r3[OF True False] by simp
    qed
  qed
qed

subsection \<open>The outcome of the fallback script\<close>

text \<open>
  C1. Claim: in the code-generation fallback, a script that exits non-zero, or an
  expected output file \<open><schema name>_fallback.xlsx\<close> that is missing after the run,
  ends the job in FAILED with the captured text as error message, never in COMPLETED.
  The code does so for the non-zero exit only. When the script exits with 0 and the
  expected file is missing, the branch written for that case sets COMPLETED and
  records a note in \<open>error_message\<close>: in the sample world without the output file the
  job ends COMPLETED.
\<close>

theorem fallback_missing_output_completes:
  "status (fst (stage_fallback_execution missing_output_env (sample_job, init_world))) = COMPLETED"
  by code_simp

text \<open>
  C1, as amended. Once the schema is known, the analysis is there, the code is
  generated and written, and the subprocess has returned: a non-zero exit code ends
  the job FAILED with \<open>"Fallback failed: Script execution failed: "\<close> followed by the
  captured stderr; exit code 0 with the expected file missing ends it COMPLETED, with
  \<open>output_file\<close> untouched and the note as error message.
\<close>

theorem fallback_script_outcome:
  assumes "get_schema E (target_schema_name job) = Some ts"
    and "(case source_analysis job of
            Some a \<Rightarrow> Inr a
          | None \<Rightarrow> analyst_run E (Suc (clock w)) (source_file job)) = Inr sa"
    and "code_generator_run E (Suc (clock w)) (source_file job) ts sa = Inr code"
    and "write_script E (Suc (clock w))
           (output_dir_parent E @ ''/fallback_'' @ job_id job @ ''.py'') code = None"
    and "subprocess_run E (Suc (clock w))
           (output_dir_parent E @ ''/fallback_'' @ job_id job @ ''.py'') = Inr result"
  shows "(returncode result \<noteq> 0 \<longrightarrow>
            status (fst (stage_fallback_execution E (job, w))) = FAILED \<and>
            error_message (fst (stage_fallback_execution E (job, w))) =
              Some (''Fallback failed: Script execution failed: '' @ stderr result)) \<and>
         (returncode result = 0 \<and>
          \<not> path_exists E (Suc (clock w)) (output_dir E @ ''/'' @ ts_name ts @ ''_fallback.xlsx'') \<longrightarrow>
            status (fst (stage_fallback_execution E (job, w))) = COMPLETED \<and>
            output_file (fst (stage_fallback_execution E (job, w))) = output_file job \<and>
            error_message (fst (stage_fallback_execution E (job, w))) =
              Some ''Script ran but output file not found at expected location'')"
  using assms
  by (cases "source_analysis job")
     (simp_all add: stage_fallback_execution_def fallback_generate_def fallback_run_script_def
        stage_defs Let_def)

theorem fallback_script_outcome_witness:
  "status (fst (stage_fallback_execution script_fails_env (sample_job, init_world))) = FAILED \<and>
   error_message (fst (stage_fallback_execution script_fails_env (sample_job, init_world))) =
     Some ''Fallback failed: Script execution failed: boom''"
  using fallback_script_outcome [of script_fails_env sample_job GENERIC_CUSTOMER_SCHEMA init_world
      sample_analysis "''print(1)''" "\<lparr>returncode = 1, stdout = [], stderr = ''boom''\<rparr>"]
  by (simp add: script_fails_env_def sample_env_def sample_job_def new_job_def init_world_def)

subsection \<open>Persistence at return\<close>

text \<open>
  C2. Claim: on every path by which \<open>run_job\<close> returns after a stage transition, the
  job snapshot has been persisted, so the stored state equals the returned one.
  \<open>run_job\<close> calls \<open>_save_job\<close> only after the validation stage; every earlier
  \<open>return\<close> leaves the store as it was. A job created (and persisted as PENDING) and
  then run in a world whose planner asks a question comes back waiting for input with
  the question pending, while the store still holds the PENDING snapshot without it.
\<close>

theorem run_job_suspended_not_persisted:
  "(case create_job ''job1'' ''data.xlsx'' ''generic_customer'' init_world of (job0, w0) \<Rightarrow>
      case run_job asking_env (job0, w0) of (job1, w1) \<Rightarrow>
        status job1 = WAITING_FOR_INPUT \<and>
        pending_questions job1 = [''Which column is the name?''] \<and>
        map_option d_status (store w1 (job_id job1)) = Some PENDING \<and>
        map_option d_pending_questions (store w1 (job_id job1)) = Some [])"
  by code_simp

subsection \<open>Low confidence and planning failures\<close>

text \<open>
  C3. When a run reaches planning and the planner either returns a plan with
  confidence below 0.5 that asks for no user input, or raises, then \<open>run_job\<close> is the
  fallback stage applied to the job as planning left it. After the planning stage
  (status PLANNING, the planner call and, if it raised, the status FAILED set by its
  handler) the next status is the fallback's EXECUTING; the engine, the validator and
  the output writer are never called and VALIDATING is never entered; the run ends
  COMPLETED, or FAILED with a message of the fallback.
\<close>

theorem low_confidence_plan_takes_fallback:
  assumes reach: "run_before_plan E jw = Inr (job, w)"
    and planner:
      "(\<exists>p. planner_run E (Suc (clock w)) (source_analysis job)
               (schema_or_generic E (target_schema_name job)) = Inr p \<and>
            confidence_score p < 1 / 2 \<and> \<not> requires_user_input p) \<or>
       (\<exists>e. planner_run E (Suc (clock w)) (source_analysis job)
               (schema_or_generic E (target_schema_name job)) = Inl e)"
  shows "run_job E jw = stage_fallback_execution E (stage_plan E (job, w)) \<and>
         (\<exists>evs. trace (snd (run_job E jw)) =
                  trace (snd (stage_plan E (job, w))) @ SetStatus EXECUTING # evs \<and>
                Invoke Engine \<notin> set evs \<and> Invoke Validator \<notin> set evs \<and>
                Invoke OutputWriter \<notin> set evs \<and> SetStatus VALIDATING \<notin> set evs) \<and>
         (\<exists>evs. trace (snd (stage_plan E (job, w))) =
                  trace w @ SetStatus PLANNING # Invoke Planner # evs \<and>
                set evs \<subseteq> {SetStatus FAILED}) \<and>
         (status (fst (run_job E jw)) = COMPLETED \<or>
          status (fst (run_job E jw)) = FAILED \<and>
          (\<exists>m. error_message (fst (run_job E jw)) = Some (''Fallback failed: '' @ m)))"
proof -
  let ?jp = "stage_plan E (job, w)"
  have plan: "status (fst ?jp) \<noteq> WAITING_FOR_INPUT \<and>
              (status (fst ?jp) = FAILED \<or> low_confidence (fst ?jp))"
    using planner by (auto simp: stage_plan_def stage_defs Let_def low_confidence_def)
  have run: "run_job E jw = stage_fallback_execution E ?jp"
    using reach plan by (auto simp: run_job_def run_after_plan_def)
  obtain evs where evs: "trace (snd (stage_fallback_execution E ?jp)) =
        trace (snd ?jp) @ SetStatus EXECUTING # evs"
      "set evs \<subseteq> {Invoke SchemaAnalyst, Invoke CodeGenerator, Invoke Subprocess,
                   SetStatus FAILED, SetStatus COMPLETED}"
    using stage_fallback_execution_trace by blast
  have tr: "\<exists>evs. trace (snd (run_job E jw)) = trace (snd ?jp) @ SetStatus EXECUTING # evs \<and>
                Invoke Engine \<notin> set evs \<and> Invoke Validator \<notin> set evs \<and>
                Invoke OutputWriter \<notin> set evs \<and> SetStatus VALIDATING \<notin> set evs"
    using evs run by (intro exI[of _ evs]) auto
  have ptr: "\<exists>evs. trace (snd ?jp) = trace w @ SetStatus PLANNING # Invoke Planner # evs \<and>
                set evs \<subseteq> {SetStatus FAILED}"
    using planner by (auto simp: stage_plan_def stage_defs Let_def)
  have verdict: "status (fst (run_job E jw)) = COMPLETED \<or>
          status (fst (run_job E jw)) = FAILED \<and>
          (\<exists>m. error_message (fst (run_job E jw)) = Some (''Fallback failed: '' @ m))"
    using stage_fallback_execution_verdict[of E ?jp] run by simp
  show ?thesis using run tr ptr verdict by blast
qed

theorem low_confidence_plan_takes_fallback_witness:
  "run_before_plan unsure_env (sample_job, init_world) =
     Inr (stage_analyze unsure_env (stage_detect_tables unsure_env (sample_job, init_world))) \<and>
   confidence_score (sample_plan\<lparr>confidence_score := 3 / 10\<rparr>) < 1 / 2 \<and>
   status (fst (run_job unsure_env (sample_job, init_world))) = COMPLETED \<and>
   Invoke Engine \<notin> set (trace (snd (run_job unsure_env (sample_job, init_world))))"
proof -
  let ?a = "stage_analyze unsure_env (stage_detect_tables unsure_env (sample_job, init_world))"
  have s1: "multi_table_analysis sample_job = None"
    by (simp add: sample_job_def new_job_def)
  have s2: "status (fst (stage_detect_tables unsure_env (sample_job, init_world))) = DETECTING_TABLES"
    by code_simp
  have s3: "status (fst ?a) = ANALYZING"
    by code_simp
  have reach: "run_before_plan unsure_env (sample_job, init_world) = Inr (fst ?a, snd ?a)"
    by (simp add: run_before_plan_def s1 s2 s3 Let_def)
  have planner: "(\<exists>p. planner_run unsure_env (Suc (clock (snd ?a))) (source_analysis (fst ?a))
               (schema_or_generic unsure_env (target_schema_name (fst ?a))) = Inr p \<and>
            confidence_score p < 1 / 2 \<and> \<not> requires_user_input p) \<or>
       (\<exists>e. planner_run unsure_env (Suc (clock (snd ?a))) (source_analysis (fst ?a))
               (schema_or_generic unsure_env (target_schema_name (fst ?a))) = Inl e)"
    by (simp add: unsure_env_def sample_env_def sample_plan_def)
  have "run_job unsure_env (sample_job, init_world) =
          stage_fallback_execution unsure_env (stage_plan unsure_env (fst ?a, snd ?a))"
    using low_confidence_plan_takes_fallback [OF reach planner] by blast
  moreover have "status (fst (stage_fallback_execution unsure_env
                   (stage_plan unsure_env (fst ?a, snd ?a)))) = COMPLETED"
    by code_simp
  moreover have "Invoke Engine \<notin> set (trace (snd (stage_fallback_execution unsure_env
                   (stage_plan unsure_env (fst ?a, snd ?a)))))"
    by code_simp
  moreover have "confidence_score (sample_plan\<lparr>confidence_score := 3 / 10\<rparr>) < 1 / 2"
    by simp
  ultimately show ?thesis using reach by simp
qed

subsection \<open>Saving and loading a job\<close>

text \<open>
  C7. Claim: loading a persisted job gives back an equivalent job, nested objects and
  table-selection state included. The snapshot written by \<open>to_dict\<close> has no key for
  the table-selection state, so a job saved with a selected table is loaded without
  it.
\<close>

theorem get_job_loses_selection_counterexample:
  "get_job (snd (save_job (analysed_job, init_world))) (job_id analysed_job) \<noteq>
     Some (fst (save_job (analysed_job, init_world))) \<and>
   map_option selected_table_id (get_job (snd (save_job (analysed_job, init_world))) (job_id analysed_job)) = Some None \<and>
   selected_table_id (fst (save_job (analysed_job, init_world))) = Some ''table_1''"
  by (simp add: save_job_def get_job_def from_dict_def to_dict_def analysed_job_def sample_job_def
      new_job_def init_world_def tick_def Let_def)

text \<open>
  C7, as amended. Saving a job and loading it by its id gives a job with the same
  identity, status, timestamps, plan, validation report, output file, questions,
  answers, error message and retry count; the table-selection state of the loaded job
  is empty.
\<close>

theorem get_job_restores_serialized_fields:
  "\<exists>loaded. get_job (snd (save_job (job, w))) (job_id job) = Some loaded \<and>
     job_id loaded = job_id (fst (save_job (job, w))) \<and>
     source_file loaded = source_file (fst (save_job (job, w))) \<and>
     target_schema_name loaded = target_schema_name (fst (save_job (job, w))) \<and>
     status loaded = status (fst (save_job (job, w))) \<and>
     created_at loaded = created_at (fst (save_job (job, w))) \<and>
     updated_at loaded = updated_at (fst (save_job (job, w))) \<and>
     transformation_plan loaded = transformation_plan (fst (save_job (job, w))) \<and>
     validation_report loaded = validation_report (fst (save_job (job, w))) \<and>
     output_file loaded = output_file (fst (save_job (job, w))) \<and>
     pending_questions loaded = pending_questions (fst (save_job (job, w))) \<and>
     user_answers loaded = user_answers (fst (save_job (job, w))) \<and>
     error_message loaded = error_message (fst (save_job (job, w))) \<and>
     retry_count loaded = retry_count (fst (save_job (job, w))) \<and>
     multi_table_analysis loaded = None \<and>
     table_matching_result loaded = None \<and>
     selected_table_id loaded = None"
  by (auto simp: save_job_def get_job_def from_dict_def to_dict_def new_job_def tick_def Let_def split: option.splits)

subsection \<open>Terminal jobs\<close>

text \<open>
  C9. Claim: once a job is COMPLETED or FAILED, no call of \<open>run_job\<close>,
  \<open>answer_question\<close> or \<open>select_table\<close> changes any of its fields. \<open>run_job\<close> does
  not look at the status it is given: run on a COMPLETED job in a world whose analyst
  fails, it returns the job FAILED with a new error message.
\<close>

theorem terminal_job_rerun_counterexample:
  "status completed_job = COMPLETED \<and>
   status (fst (run_job analysis_fails_env (completed_job, init_world))) = FAILED \<and>
   error_message (fst (run_job analysis_fails_env (completed_job, init_world))) \<noteq> error_message completed_job"
  by code_simp

text \<open>
  C9, as amended. \<open>answer_question\<close> and \<open>select_table\<close> return a COMPLETED or FAILED
  job, and the world, unchanged. \<open>run_job\<close> has no such guard: whatever the status, its
  first step assigns DETECTING_TABLES (when no detection result is attached) or
  ANALYZING.
\<close>

theorem terminal_job_left_alone_by_answers:
  assumes "status job = COMPLETED \<or> status job = FAILED"
  shows "answer_question E (job, w) question_index answer = Inr (job, w) \<and>
         select_table E (job, w) selection = (job, w) \<and>
         (\<exists>evs. trace (snd (run_job E (job, w))) =
            trace w @ SetStatus (if multi_table_analysis job = None then DETECTING_TABLES else ANALYZING) # evs)"
  using assms run_job_first_event[of E job w]
  by (auto simp: answer_question_def select_table_def)

theorem terminal_job_left_alone_by_answers_witness:
  "status completed_job = COMPLETED \<and>
   answer_question sample_env (completed_job, init_world) 0 ''yes'' = Inr (completed_job, init_world) \<and>
   select_table sample_env (completed_job, init_world) ''1'' = (completed_job, init_world)"
  using terminal_job_left_alone_by_answers [of completed_job sample_env init_world 0 "''yes''" "''1''"]
  by (simp add: completed_job_def)

section \<open>Properties of the function registry\<close>

lemmas text_defs = strip_def is_space_def upper_def lower_def to_upper_def to_lower_def
  is_upper_def is_lower_def is_digit_def digit_val_def char_of_eq_iff

lemma list_functions_eq:
  "list_functions = [''SPLIT_FULL_NAME'', ''REGEX_EXTRACT'', ''CLEAN_WHITESPACE'',
     ''SMART_DATE_PARSE'', ''FORMAT_DATE'', ''NORMALIZE_CURRENCY'', ''MAP_VALUES'',
     ''CONDITIONAL_FILL'', ''LOOKUP_PINCODE'', ''VALIDATE_GSTIN'', ''VALIDATE_EMAIL'',
     ''NORMALIZE_PHONE'', ''UPPERCASE'', ''LOWERCASE'', ''TITLECASE'', ''TRIM'',
     ''CONCATENATE'', ''COMPUTE_DATE_DIFF'']"
  by (simp add: list_functions_def registered_functions_def register_def text_defs)

lemma registry_execute_simps:
  "registry_execute L ''SPLIT_FULL_NAME'' v p kw = split_full_name L v p kw"
  "registry_execute L ''REGEX_EXTRACT'' v p kw = regex_extract L v p kw"
  "registry_execute L ''CLEAN_WHITESPACE'' v p kw = clean_whitespace L v p kw"
  "registry_execute L ''SMART_DATE_PARSE'' v p kw = smart_date_parse L v p kw"
  "registry_execute L ''FORMAT_DATE'' v p kw = format_date L v p kw"
  "registry_execute L ''NORMALIZE_CURRENCY'' v p kw = normalize_currency L v p kw"
  "registry_execute L ''MAP_VALUES'' v p kw = map_values L v p kw"
  "registry_execute L ''CONDITIONAL_FILL'' v p kw = conditional_fill L v p kw"
  "registry_execute L ''LOOKUP_PINCODE'' v p kw = lookup_pincode L v p kw"
  "registry_execute L ''VALIDATE_GSTIN'' v p kw = validate_gstin L v p kw"
  "registry_execute L ''VALIDATE_EMAIL'' v p kw = validate_email L v p kw"
  "registry_execute L ''NORMALIZE_PHONE'' v p kw = normalize_phone L v p kw"
  "registry_execute L ''UPPERCASE'' v p kw = uppercase L v p kw"
  "registry_execute L ''LOWERCASE'' v p kw = lowercase L v p kw"
  "registry_execute L ''TITLECASE'' v p kw = titlecase L v p kw"
  "registry_execute L ''TRIM'' v p kw = trim L v p kw"
  "registry_execute L ''CONCATENATE'' v p kw = concatenate L v p kw"
  "registry_execute L ''COMPUTE_DATE_DIFF'' v p kw = compute_date_diff L v p kw"
  by (simp_all add: registry_execute_def registered_functions_def register_def text_defs)

lemmas registry_defs = split_full_name_def regex_extract_def clean_whitespace_def
  smart_date_parse_def parse_date_def date_val_def format_date_def normalize_currency_def
  map_values_def conditional_fill_def lookup_pincode_def validate_gstin_def validate_email_def
  normalize_phone_def uppercase_def lowercase_def titlecase_def trim_def concatenate_def
  compute_date_diff_def pd_isna_def dict_get_def no_kwargs_def

lemma null_input:
  assumes "v = VNone \<or> v = VNaN"
  shows "\<forall>name \<in> set list_functions.
           registry_execute L name v [] no_kwargs = Inr (empty_sentinel name)"
  using assms
  by (auto simp: list_functions_eq registry_execute_simps registry_defs empty_sentinel_def)

lemma empty_input:
  "\<forall>name \<in> set list_functions.
     registry_execute L name (VStr []) [] no_kwargs =
       Inr (if name = ''LOOKUP_PINCODE'' then place [] [] ''India''
            else if name = ''VALIDATE_GSTIN''
            then gstin_result False [] [] ''Invalid length: 0 (expected 15)''
            else if name = ''VALIDATE_EMAIL'' then email_result False [] ''Invalid email format''
            else empty_sentinel name)"
  by (simp add: list_functions_eq registry_execute_simps registry_defs empty_sentinel_def
      text_defs title_def mock_data_def email_pattern_def cut_def string_of_nat.simps
      gstin_result_def)

subsection \<open>Null and empty input\<close>

text \<open>
  C5. Claim: every registered function, called with a null value or with the empty
  string, returns without raising and gives its documented empty sentinel. For the
  empty string the pincode lookup does not: the empty text is looked up like any
  other unknown pincode, and the answer names the country India.
\<close>

theorem lookup_pincode_empty_string_counterexample:
  "registry_execute no_libs ''LOOKUP_PINCODE'' (VStr []) [] no_kwargs =
     Inr (place [] [] ''India'') \<and>
   place [] [] ''India'' \<noteq> empty_sentinel ''LOOKUP_PINCODE''"
  by (simp add: registry_execute_simps lookup_pincode_def pd_isna_def dict_get_def mock_data_def
      strip_def empty_sentinel_def place_def)

text \<open>
  C5, as amended. With default parameters and no row context, whatever the libraries
  answer: every registered function returns its empty sentinel for \<open>None\<close> and for
  \<open>NaN\<close>; for the empty string it returns too, and with the same sentinel except for
  three functions: the pincode lookup (country India), and the GSTIN and e-mail
  validators, whose invalid result carries the error text of the failed check
  instead of \<open>Empty value\<close>.
\<close>

theorem registry_null_and_empty_input:
  "\<forall>name \<in> set list_functions.
     registry_execute L name VNone [] no_kwargs = Inr (empty_sentinel name) \<and>
     registry_execute L name VNaN [] no_kwargs = Inr (empty_sentinel name) \<and>
     registry_execute L name (VStr []) [] no_kwargs =
       Inr (if name = ''LOOKUP_PINCODE'' then place [] [] ''India''
            else if name = ''VALIDATE_GSTIN''
            then gstin_result False [] [] ''Invalid length: 0 (expected 15)''
            else if name = ''VALIDATE_EMAIL'' then email_result False [] ''Invalid email format''
            else empty_sentinel name)"
  using null_input [of VNone L] null_input [of VNaN L] empty_input [of L] by blast

theorem registry_null_and_empty_input_witness:
  "''NORMALIZE_CURRENCY'' \<in> set list_functions \<and>
   registry_execute no_libs ''NORMALIZE_CURRENCY'' VNone [] no_kwargs = Inr VNone \<and>
   registry_execute no_libs ''UPPERCASE'' VNone [] no_kwargs = Inr (VStr []) \<and>
   registry_execute no_libs ''SPLIT_FULL_NAME'' (VStr []) [] no_kwargs =
     Inr (VDict [(''first_name'', VStr []), (''middle_name'', VStr []), (''last_name'', VStr [])])"
  using registry_null_and_empty_input [of no_libs]
  by (simp add: list_functions_eq empty_sentinel_def EMPTY_NAME_def)

subsection \<open>The currency examples\<close>

text \<open>
  C6. Claim: the currency normalizer gives 15000.50 for the rupee sign followed by
  \<open>" 15,000.50"\<close>, 25000.0 for \<open>"Rs.25,000"\<close> and -500.0 for \<open>"(500)"\<close>. The first
  and the third hold. In the second the symbol \<open>Rs\<close> is removed before \<open>Rs.\<close> is
  tried, the dot stays, and the text \<open>".25000"\<close> is read as 0.25.
\<close>

theorem currency_examples:
  "normalize_currency L (VStr ([CHR 0xE2, CHR 0x82, CHR 0xB9] @ '' 15,000.50'')) [] kw =
     Inr (VFloat 15000.50) \<and>
   normalize_currency L (VStr ''(500)'') [] kw = Inr (VFloat (- 500)) \<and>
   normalize_currency L (VStr ''Rs.25,000'') [] kw = Inr (VFloat 0.25) \<and>
   normalize_currency L (VStr ''Rs.25,000'') [] kw \<noteq> Inr (VFloat 25000)"
  by (simp add: normalize_currency_def pd_isna_def strip_def is_space_def strip_symbols_def
      currency_symbols_def replace_def py_float_def unsigned_float_def lower_def to_lower_def
      is_upper_def cut_def mantissa_def digits_value_def is_digit_def digit_val_def)

section \<open>Properties of the execution engine\<close>

subsection \<open>What a step leaves alone in the store\<close>

lemma setitem_length [simp]: "length (setitem r c vs h) = length h"
  by (simp add: setitem_def)

lemma setitem_other [simp]: "q \<noteq> r \<Longrightarrow> setitem r c vs h ! q = h ! q"
  by (simp add: setitem_def)


lemma frame_refl [simp]: "frame r h h"
  by (simp add: frame_def)

lemma frame_trans: "frame r h h' \<Longrightarrow> frame r h' h'' \<Longrightarrow> frame r h h''"
  by (simp add: frame_def)

lemma frame_setitem [simp]: "frame r h (setitem r c vs h)"
  by (simp add: frame_def)

lemma frame_fold:
  assumes "\<And>x h. frame r h (f x h)"
  shows "frame r h (fold f xs h)"
proof (induction xs arbitrary: h)
  case Nil
  then show ?case by simp
next
  case (Cons x xs)
  show ?case using frame_trans[OF assms[of h x] Cons.IH[of "f x h"]] by simp
qed

lemma frame_fold_setitem: "frame r h (fold (\<lambda>col. setitem r col (f col)) cs h)"
  by (rule frame_fold) simp

lemma frame_single_input:
  "transform_single_input reg t ic r h = Inr h' \<Longrightarrow> frame r h h'"
  by (auto simp: transform_single_input_def Let_def frame_fold_setitem
        split: sum.splits if_splits option.splits)

lemma frame_multi_input:
  "transform_multi_input reg t r h = Inr h' \<Longrightarrow> frame r h h'"
  by (auto simp: transform_multi_input_def split: sum.splits if_splits option.splits)

lemma frame_single_transformation:
  "apply_single_transformation reg t r h = Inr h' \<Longrightarrow> frame r h h'"
  by (auto simp: apply_single_transformation_def frame_single_input frame_multi_input
        split: option.splits if_splits)

lemma frame_transformations:
  "frame r h (fst (apply_transformations reg ts r (h, ws)))"
proof (induction ts arbitrary: h ws)
  case Nil
  then show ?case by simp
next
  case (Cons t ts)
  show ?case
  proof (cases "apply_single_transformation reg t r h")
    case (Inl e)
    then show ?thesis using Cons.IH by simp
  next
    case (Inr h')
    then show ?thesis
      using frame_trans[OF frame_single_transformation[OF Inr] Cons.IH[of h' ws]] by simp
  qed
qed

lemma frame_single_enrichment:
  "apply_single_enrichment reg en r h = Inr h' \<Longrightarrow> frame r h h'"
  by (auto simp: apply_single_enrichment_def frame_fold_setitem split: sum.splits if_splits)

lemma frame_enrichments:
  "frame r h (fst (apply_enrichments reg ens r (h, ws)))"
proof (induction ens arbitrary: h ws)
  case Nil
  then show ?case by simp
next
  case (Cons en ens)
  show ?case
  proof (cases "apply_single_enrichment reg en r h")
    case (Inl e)
    then show ?thesis using Cons.IH by simp
  next
    case (Inr h')
    then show ?thesis
      using frame_trans[OF frame_single_enrichment[OF Inr] Cons.IH[of h' ws]] by simp
  qed
qed

lemma frame_update [simp]: "frame rt h (h[rt := T])"
  by (simp add: frame_def)

lemma frame_apply_mapping: "apply_mapping r rt m h = Inr h' \<Longrightarrow> frame rt h h'"
  by (auto simp: apply_mapping_def split: sum.splits)

lemma frame_add_enriched: "add_enriched plan r rt col h = Inr h' \<Longrightarrow> frame rt h h'"
  by (auto simp: add_enriched_def split: sum.splits)

lemma frame_run_steps:
  assumes "\<And>x s s'. step x s = Inr s' \<Longrightarrow> frame rt s s'"
  shows "frame rt h (snd (run_steps step xs h))"
proof (induction xs arbitrary: h)
  case Nil
  then show ?case by simp
next
  case (Cons x xs)
  show ?case
  proof (cases "step x h")
    case (Inl e)
    then show ?thesis by simp
  next
    case (Inr h')
    then show ?thesis using frame_trans[OF assms[OF Inr] Cons.IH[of h']] by simp
  qed
qed

lemma frame_intermediate:
  "frame (length h) (h @ [h ! r]) (fst (intermediate reg r plan h))"
proof -
  obtain h1 w1 where t: "apply_transformations reg (transformations plan) (length h) (h @ [h ! r], []) = (h1, w1)"
    by (cases "apply_transformations reg (transformations plan) (length h) (h @ [h ! r], [])")
  have f1: "frame (length h) (h @ [h ! r]) h1"
    using frame_transformations[of "length h" "h @ [h ! r]" reg "transformations plan" "[]"] t by simp
  have f2: "frame (length h) h1 (fst (apply_enrichments reg (enrichments plan) (length h) (h1, w1)))"
    by (rule frame_enrichments)
  show ?thesis using frame_trans[OF f1 f2] t by (simp add: intermediate_def alloc_def)
qed

lemma column_mappings_frame:
  assumes "apply_column_mappings plan r h = (res, h')"
  shows "frame (length h) (h @ [[]]) h' \<and> (\<forall>ref. res = Inr ref \<longrightarrow> ref = length h \<or> ref = r)"
proof -
  let ?rt = "length h"
  obtain e1 h1 where s1: "run_steps (apply_mapping r ?rt) (column_mappings plan) (h @ [[]]) = (e1, h1)"
    by (cases "run_steps (apply_mapping r ?rt) (column_mappings plan) (h @ [[]])")
  obtain e2 h2 where s2: "run_steps (add_enriched plan r ?rt) (columns (h1 ! r)) h1 = (e2, h2)"
    by (cases "run_steps (add_enriched plan r ?rt) (columns (h1 ! r)) h1")
  have f1: "frame ?rt (h @ [[]]) h1"
    using frame_run_steps[of "apply_mapping r ?rt" ?rt "h @ [[]]" "column_mappings plan"]
      frame_apply_mapping s1 by simp
  have f2: "frame ?rt h1 h2"
    using frame_run_steps[of "add_enriched plan r ?rt" ?rt h1 "columns (h1 ! r)"]
      frame_add_enriched s2 by simp
  show ?thesis
  proof (cases e1)
    case (Some e)
    then show ?thesis using assms s1 f1 by (auto simp: apply_column_mappings_def alloc_def)
  next
    case None
    show ?thesis
    proof (cases e2)
      case (Some e)
      then show ?thesis
        using assms s1 s2 None frame_trans[OF f1 f2]
        by (auto simp: apply_column_mappings_def alloc_def)
    next
      case n2: None
      then show ?thesis
        using assms s1 s2 None frame_trans[OF f1 f2]
        by (auto simp: apply_column_mappings_def alloc_def split: if_splits)
    qed
  qed
qed

subsection \<open>Assignment to a column\<close>







lemma assign_not_Nil [simp]: "assign k v d \<noteq> []"
  by (cases d) (auto simp: assign_def columns_def)

lemma Nil_not_assign [simp]: "[] \<noteq> assign k v d"
  using assign_not_Nil[of k v d] by metis




lemma all_of_length_Nil [simp]: "all_of_length n []"
  by (simp add: all_of_length_def)








subsection \<open>Loops that may raise\<close>





subsection \<open>The loop over the mappings\<close>

















subsection \<open>The loop over the enriched columns\<close>












subsection \<open>The first two phases on the copy\<close>








lemma df_rows_length [simp]: "length (df_rows df) = nrows df"
  by (simp add: df_rows_def)











subsection \<open>The projection in the store\<close>





subsection \<open>Direct and skipped mappings\<close>




subsection \<open>The caller's table\<close>

text \<open>
  C10. For every store, table reference and plan, and every registry: after
  \<open>execute\<close> all tables that existed before the call, the caller's input table among
  them, are as they were (same columns, same values), and the table returned is a
  new one, made by the call. This holds also when the projection raises: the tables
  that existed before are as they were, and the table that \<open>execute\<close> held is its copy.
\<close>

theorem execute_leaves_input_unchanged:
  "take (length h) (result_heap (execute reg r plan h)) = h \<and>
   length h \<le> result_ref (execute reg r plan h) \<and>
   result_ref (execute reg r plan h) < length (result_heap (execute reg r plan h))"
proof -
  obtain h1 ws where i: "intermediate reg r plan h = (h1, ws)"
    by (cases "intermediate reg r plan h")
  obtain res h2 where c: "apply_column_mappings plan (length h) h1 = (res, h2)"
    by (cases "apply_column_mappings plan (length h) h1")
  have f1: "frame (length h) (h @ [h ! r]) h1"
    using frame_intermediate[of h r reg plan] i by simp
  then have l1: "length h1 = Suc (length h)" by (simp add: frame_def)
  have f2: "frame (length h1) (h1 @ [[]]) h2"
    and res: "\<forall>ref. res = Inr ref \<longrightarrow> ref = length h1 \<or> ref = length h"
    using column_mappings_frame[OF c] by auto
  have l2: "length h2 = Suc (Suc (length h))" using f2 l1 by (simp add: frame_def)
  have same: "h2 ! q = h ! q" if "q < length h" for q
  proof -
    have "h2 ! q = (h1 @ [[]]) ! q" using f2 that l1 by (simp add: frame_def)
    also have "\<dots> = h1 ! q" using that l1 by (simp add: nth_append)
    also have "\<dots> = (h @ [h ! r]) ! q" using f1 that by (simp add: frame_def)
    also have "\<dots> = h ! q" using that by (simp add: nth_append)
    finally show ?thesis .
  qed
  have "take (length h) h2 = h"
    using same l2 by (intro nth_equalityI) simp_all
  then show ?thesis using i c res l1 l2 by (cases res) (auto simp: execute_def)
qed

theorem execute_leaves_input_unchanged_witness:
  "result_heap (execute (registry_execute no_libs) 0 uppercase_plan [names_table]) ! 0 = names_table \<and>
   result_ref (execute (registry_execute no_libs) 0 uppercase_plan [names_table]) \<noteq> 0"
  using execute_leaves_input_unchanged [of "[names_table]" "registry_execute no_libs" 0 uppercase_plan]
  by (cases "result_heap (execute (registry_execute no_libs) 0 uppercase_plan [names_table])") auto

section \<open>Properties of the table matcher\<close>

subsection \<open>The dictionary of target columns\<close>

lemma dict_set_fresh: "k \<notin> fst ` set d \<Longrightarrow> dict_set k v d = d @ [(k, v)]"
  by (induction d) auto

lemma fold_dict_set_fresh:
  "distinct (map tc_name cols) \<Longrightarrow> set (map tc_name cols) \<inter> fst ` set d = {} \<Longrightarrow>
   fold (\<lambda>col d. dict_set (tc_name col) col d) cols d = d @ map (\<lambda>col. (tc_name col, col)) cols"
proof (induction cols arbitrary: d)
  case Nil
  then show ?case by simp
next
  case (Cons c cols)
  have f: "tc_name c \<notin> fst ` set d" using Cons.prems(2) by auto
  have "set (map tc_name cols) \<inter> fst ` set (d @ [(tc_name c, c)]) = {}"
    using Cons.prems by auto
  then show ?case using Cons.IH[of "d @ [(tc_name c, c)]"] Cons.prems(1)
    by (simp add: dict_set_fresh[OF f])
qed

lemma target_cols_dict_distinct:
  "distinct (map tc_name (ts_columns schema)) \<Longrightarrow>
   target_cols_dict schema = map (\<lambda>col. (tc_name col, col)) (ts_columns schema)"
  unfolding target_cols_dict_def using fold_dict_set_fresh[of "ts_columns schema" "[]"] by simp

subsection \<open>Bounds of the score of a pair\<close>

lemma common_names_score_bound:
  "score \<le> 95 / 100 \<Longrightarrow>
   (case common_names_score sn cs score of Inl x \<Rightarrow> x \<le> 95 / 100 | Inr x \<Rightarrow> x \<le> 95 / 100)"
  by (induction sn cs score rule: common_names_score.induct) (auto simp: Let_def)

lemma keyword_score_bound: "keyword_score L s t = Some k \<Longrightarrow> k \<le> 9 / 10"
proof -
  assume a: "keyword_score L s t = Some k"
  define sk where "sk = remdups (extract_keywords L s)"
  define tk where "tk = remdups (extract_keywords L t)"
  define shared where "shared = filter (\<lambda>w. w \<in> set tk) sk"
  have ne: "shared \<noteq> []" and k: "k = 6 / 10 * (real (length shared) / real (max (length sk) (length tk))) + 3 / 10"
    using a unfolding keyword_score_def Let_def sk_def[symmetric] tk_def[symmetric] shared_def[symmetric]
    by (auto split: if_splits)
  have "length shared \<le> max (length sk) (length tk)"
    unfolding shared_def using length_filter_le[of "\<lambda>w. w \<in> set tk" sk] by linarith
  moreover have "0 < max (length sk) (length tk)" using ne unfolding shared_def by (cases sk) auto
  ultimately have "real (length shared) / real (max (length sk) (length tk)) \<le> 1" by simp
  then show ?thesis using k by simp
qed

lemma score_exact:
  "normalize_column_name s = normalize_column_name t \<Longrightarrow>
   calculate_column_match_score L s t cn ty sv = 1"
  by (simp add: calculate_column_match_score_def)

lemma score_below:
  assumes "normalize_column_name s \<noteq> normalize_column_name t" and le1: "\<forall>a b. py_ratio L a b \<le> 1"
  shows "calculate_column_match_score L s t cn ty sv < 1"
proof -
  have b: "case common_names_score (normalize_column_name s) cn 0 of
             Inl x \<Rightarrow> x \<le> 95 / 100 | Inr x \<Rightarrow> x \<le> 95 / 100"
    using common_names_score_bound[of 0] by simp
  have s9: "py_ratio L (normalize_column_name s) (normalize_column_name t) * (9 / 10) \<le> 9 / 10"
    using le1 by simp
  show ?thesis
  proof (cases "common_names_score (normalize_column_name s) cn 0")
    case (Inl x)
    then show ?thesis using b assms(1) by (simp add: calculate_column_match_score_def)
  next
    case (Inr x)
    then have x: "x \<le> 95 / 100" using b by simp
    show ?thesis
    proof (cases "keyword_score L s t")
      case None
      then show ?thesis using Inr x s9 assms(1)
        by (auto simp: calculate_column_match_score_def Let_def max_def)
    next
      case (Some k)
      then have "k \<le> 9 / 10" by (rule keyword_score_bound)
      then show ?thesis using Some Inr x s9 assms(1)
        by (auto simp: calculate_column_match_score_def Let_def max_def)
    qed
  qed
qed

subsection \<open>The greedy loops\<close>

lemma best_target_keeps:
  assumes "\<forall>item \<in> set items. normalize_column_name (fst item) \<noteq> normalize_column_name s"
    and "\<forall>a b. py_ratio L a b \<le> 1"
  shows "best_target L s sv claimed items (Some t, 1) = (Some t, 1)"
  using assms(1)
proof (induction items)
  case Nil
  then show ?case by simp
next
  case (Cons item items)
  have "calculate_column_match_score L s (fst item) (common_source_names (snd item))
          (data_type (snd item)) sv < 1"
    using score_below[OF _ assms(2)] Cons.prems by auto
  then show ?case using Cons by (simp add: Let_def)
qed

lemma best_target_finds:
  assumes "distinct (map (\<lambda>item. normalize_column_name (fst item)) items)"
    and "t \<in> fst ` set items" and "t \<notin> set claimed"
    and "normalize_column_name s = normalize_column_name t"
    and "snd best < 1" and le1: "\<forall>a b. py_ratio L a b \<le> 1"
  shows "best_target L s sv claimed items best = (Some t, 1)"
  using assms(1,2,5)
proof (induction items arbitrary: best)
  case Nil
  then show ?case by simp
next
  case (Cons item items)
  show ?case
  proof (cases "fst item = t")
    case True
    have "normalize_column_name (fst item) \<notin> (\<lambda>i. normalize_column_name (fst i)) ` set items"
      using Cons.prems(1) by simp
    then have "normalize_column_name s \<notin> (\<lambda>i. normalize_column_name (fst i)) ` set items"
      using True assms(4) by simp
    then have others: "\<forall>i \<in> set items. normalize_column_name (fst i) \<noteq> normalize_column_name s"
      by (metis (no_types, lifting) image_eqI)
    have "calculate_column_match_score L s (fst item) (common_source_names (snd item))
            (data_type (snd item)) sv = 1"
      using score_exact True assms(4) by simp
    then show ?thesis using True assms(3) Cons.prems(3) best_target_keeps[OF others le1]
      by (simp add: Let_def)
  next
    case False
    then have tin: "t \<in> fst ` set items" using Cons.prems(2) by auto
    have d: "distinct (map (\<lambda>item. normalize_column_name (fst item)) items)"
      using Cons.prems(1) by simp
    have "normalize_column_name (fst item) \<noteq> normalize_column_name t"
      using Cons.prems(1) tin by force
    then have lt: "calculate_column_match_score L s (fst item) (common_source_names (snd item))
            (data_type (snd item)) sv < 1"
      using score_below[OF _ le1] assms(4) by simp
    show ?thesis
      using Cons.IH[OF d tin] lt Cons.prems(3) by (simp add: Let_def)
  qed
qed

lemma best_target_result:
  "best_target L s sv claimed items best = (Some b, sc) \<Longrightarrow>
   fst best = Some b \<or> (b \<in> fst ` set items \<and> b \<notin> set claimed)"
proof (induction items arbitrary: best)
  case Nil
  then show ?case by simp
next
  case (Cons item items)
  define score where "score = calculate_column_match_score L s (fst item)
                      (common_source_names (snd item)) (data_type (snd item)) sv"
  show ?case
  proof (cases "fst item \<in> set claimed")
    case True
    then show ?thesis using Cons.IH[of best] Cons.prems by auto
  next
    case False
    show ?thesis
    proof (cases "score > snd best")
      case True
      then have "best_target L s sv claimed items (Some (fst item), score) = (Some b, sc)"
        using Cons.prems False by (simp add: score_def Let_def)
      then show ?thesis using Cons.IH[of "(Some (fst item), score)"] False by auto
    next
      case nb: False
      then have "best_target L s sv claimed items best = (Some b, sc)"
        using Cons.prems False by (simp add: score_def Let_def)
      then show ?thesis using Cons.IH[of best] by auto
    qed
  qed
qed

lemma match_columns_inv:
  "matching_inv tcs st \<Longrightarrow> matching_inv tcs (match_columns L t tcs ss st)"
proof (induction ss arbitrary: st)
  case Nil
  then show ?case by simp
next
  case (Cons s ss)
  obtain m claimed where st: "st = (m, claimed)" by (cases st)
  obtain bm sc where bt: "best_target L s (samples_of t s) claimed tcs (None, 0) = (bm, sc)"
    by (cases "best_target L s (samples_of t s) claimed tcs (None, 0)")
  show ?case
  proof (cases bm)
    case None
    then show ?thesis using Cons st bt by simp
  next
    case (Some b)
    have "b \<in> fst ` set tcs \<and> b \<notin> set claimed"
      using best_target_result[of L s "samples_of t s" claimed tcs "(None, 0)" b sc] bt Some by simp
    then have "matching_inv tcs (m @ [(s, b)], claimed @ [b])"
      using Cons.prems st by (auto simp: matching_inv_def)
    then show ?thesis using Cons st bt Some by simp
  qed
qed

lemma match_columns_mono:
  "set (snd st) \<subseteq> set (snd (match_columns L t tcs ss st))"
proof (induction ss arbitrary: st)
  case Nil
  then show ?case by simp
next
  case (Cons s ss)
  obtain m claimed where st: "st = (m, claimed)" by (cases st)
  obtain bm sc where bt: "best_target L s (samples_of t s) claimed tcs (None, 0) = (bm, sc)"
    by (cases "best_target L s (samples_of t s) claimed tcs (None, 0)")
  show ?case
  proof (cases bm)
    case None
    then show ?thesis using Cons[of "(m, claimed)"] st bt by simp
  next
    case (Some b)
    show ?thesis
      using Cons[of "(m, claimed)"] Cons[of "(m @ [(s, b)], claimed @ [b])"] st bt Some
      by auto
  qed
qed

lemma match_columns_claims:
  assumes d: "distinct (map (\<lambda>item. normalize_column_name (fst item)) tcs)"
    and le1: "\<forall>a b. py_ratio L a b \<le> 1"
    and k: "s \<in> fst ` set tcs" and ne: "s \<noteq> []"
  shows "s \<in> set ss \<Longrightarrow> s \<in> set (snd (match_columns L t tcs ss st))"
proof (induction ss arbitrary: st)
  case Nil
  then show ?case by simp
next
  case (Cons s' ss)
  obtain m claimed where st: "st = (m, claimed)" by (cases st)
  obtain bm sc where bt: "best_target L s' (samples_of t s') claimed tcs (None, 0) = (bm, sc)"
    by (cases "best_target L s' (samples_of t s') claimed tcs (None, 0)")
  show ?case
  proof (cases "s \<in> set claimed")
    case True
    then show ?thesis using match_columns_mono[of st L t tcs "s' # ss"] st by auto
  next
    case False
    show ?thesis
    proof (cases "s' = s")
      case True
      have "best_target L s (samples_of t s) claimed tcs (None, 0) = (Some s, 1)"
        using best_target_finds[OF d k False _ _ le1, of s "(None, 0)"] by simp
      then have "match_columns L t tcs (s' # ss) st =
                 match_columns L t tcs ss (m @ [(s, s)], claimed @ [s])"
        using True st ne by simp
      then show ?thesis
        using match_columns_mono[of "(m @ [(s, s)], claimed @ [s])" L t tcs ss] by auto
    next
      case False
      then have "s \<in> set ss" using Cons.prems by simp
      then show ?thesis using Cons.IH st bt by (cases bm) auto
    qed
  qed
qed


lemma matching_invariant:
  assumes "distinct (map tc_name (ts_columns schema))"
  shows "map snd (fst (matching L t schema)) = snd (matching L t schema)"
    and "distinct (snd (matching L t schema))"
    and "set (snd (matching L t schema)) \<subseteq> set (map tc_name (ts_columns schema))"
proof -
  have "matching_inv (target_cols_dict schema) ([], [])" by (simp add: matching_inv_def)
  then have "matching_inv (target_cols_dict schema) (matching L t schema)"
    unfolding matching_def by (rule match_columns_inv)
  then show "map snd (fst (matching L t schema)) = snd (matching L t schema)"
    and "distinct (snd (matching L t schema))"
    and "set (snd (matching L t schema)) \<subseteq> set (map tc_name (ts_columns schema))"
    using target_cols_dict_distinct[OF assms] by (auto simp: matching_inv_def)
qed

subsection \<open>The two shares\<close>

lemma required_matched_card:
  assumes "consistent_schema schema"
  shows "required_matched L t schema =
         int (card (set (snd (matching L t schema)) \<inter> set (required_columns schema)))"
proof -
  define C where "C = set (snd (matching L t schema))"
  define P where "P = (\<lambda>col :: TargetColumn. required col \<and> tc_name col \<in> C)"
  have d: "distinct (map tc_name (filter P (ts_columns schema)))"
    using assms by (simp add: consistent_schema_def distinct_map_filter)
  have r: "set (required_columns schema) = tc_name ` {c \<in> set (ts_columns schema). required c}"
    using assms by (auto simp: consistent_schema_def)
  have "set (map tc_name (filter P (ts_columns schema))) = C \<inter> set (required_columns schema)"
    unfolding r P_def by auto
  then have "card (C \<inter> set (required_columns schema)) = length (map tc_name (filter P (ts_columns schema)))"
    using distinct_card[OF d] by simp
  then show ?thesis by (simp add: required_matched_def C_def P_def)
qed

lemma score_refines:
  assumes c: "consistent_schema schema"
  shows "6 / 10 * required_score L t schema + 4 / 10 * optional_score L t schema =
         spec_match_score (set (snd (matching L t schema))) schema"
proof -
  define C where "C = set (snd (matching L t schema))"
  define R where "R = set (required_columns schema)"
  define N where "N = set (map tc_name (ts_columns schema))"
  have dn: "distinct (map tc_name (ts_columns schema))" using c by (simp add: consistent_schema_def)
  have RN: "R \<subseteq> N" using c by (auto simp: consistent_schema_def R_def N_def)
  have CN: "C \<subseteq> N" using matching_invariant(3)[OF dn] by (simp add: C_def N_def)
  have fin: "finite C" "finite R" "finite N" by (simp_all add: C_def R_def N_def)
  have rm: "required_matched L t schema = int (card (C \<inter> R))"
    using required_matched_card[OF c] by (simp add: C_def R_def)
  have lr: "length (required_columns schema) = card R"
    using c distinct_card[of "required_columns schema"] by (simp add: consistent_schema_def R_def)
  have ln: "length (ts_columns schema) = card N"
    using distinct_card[OF dn] by (simp add: N_def)
  have "length (fst (matching L t schema)) = length (snd (matching L t schema))"
    using matching_invariant(1)[OF dn, of L t] by (metis length_map)
  then have lm: "length (fst (matching L t schema)) = card C"
    using distinct_card[OF matching_invariant(2)[OF dn, of L t]] by (simp add: C_def)
  have co: "C \<inter> (N - R) = C - (C \<inter> R)" using CN by auto
  have "card (C \<inter> (N - R)) = card C - card (C \<inter> R)"
    unfolding co using fin by (simp add: card_Diff_subset)
  moreover have "card (C \<inter> R) \<le> card C" using fin by (simp add: card_mono)
  ultimately have oc: "int (card C) - int (card (C \<inter> R)) = int (card (C \<inter> (N - R)))" by simp
  have "card (N - R) = card N - card R" using RN fin by (simp add: card_Diff_subset)
  moreover have "card R \<le> card N" using RN fin by (simp add: card_mono)
  ultimately have ot: "int (card N) - int (card R) = int (card (N - R))" by simp
  have req: "required_score L t schema = share (card (C \<inter> R)) (card R)"
    by (simp add: required_score_def Let_def rm lr share_def)
  have opt: "optional_score L t schema = share (card (C \<inter> (N - R))) (card (N - R))"
    unfolding optional_score_def Let_def rm lr ln lm oc ot share_def by simp
  show ?thesis
    unfolding req opt spec_match_score_def Let_def C_def[symmetric] R_def[symmetric] N_def[symmetric]
    by simp
qed

lemma optional_score_nonneg:
  assumes c: "consistent_schema schema"
  shows "0 \<le> optional_score L t schema"
proof -
  have dn: "distinct (map tc_name (ts_columns schema))" using c by (simp add: consistent_schema_def)
  have "length (fst (matching L t schema)) = length (snd (matching L t schema))"
    using matching_invariant(1)[OF dn, of L t] by (metis length_map)
  then have lm: "length (fst (matching L t schema)) = card (set (snd (matching L t schema)))"
    using distinct_card[OF matching_invariant(2)[OF dn, of L t]] by simp
  have "card (set (snd (matching L t schema)) \<inter> set (required_columns schema))
        \<le> card (set (snd (matching L t schema)))"
    by (simp add: card_mono)
  then have "required_matched L t schema \<le> int (length (fst (matching L t schema)))"
    using required_matched_card[OF c, of L t] lm by simp
  then show ?thesis by (simp add: optional_score_def Let_def)
qed

lemma required_all_claimed:
  assumes c: "consistent_schema schema"
    and d: "distinct (map (\<lambda>col. normalize_column_name (tc_name col)) (ts_columns schema))"
    and le1: "\<forall>a b. py_ratio L a b \<le> 1"
    and ne: "[] \<notin> set (required_columns schema)"
    and sub: "set (required_columns schema) \<subseteq> set (column_names t)"
  shows "set (required_columns schema) \<subseteq> set (snd (matching L t schema))"
proof
  fix s assume s: "s \<in> set (required_columns schema)"
  have dn: "distinct (map tc_name (ts_columns schema))" using c by (simp add: consistent_schema_def)
  have tcs: "target_cols_dict schema = map (\<lambda>col. (tc_name col, col)) (ts_columns schema)"
    using target_cols_dict_distinct[OF dn] .
  have d': "distinct (map (\<lambda>item. normalize_column_name (fst item)) (target_cols_dict schema))"
    using d by (simp add: tcs comp_def)
  have k: "s \<in> fst ` set (target_cols_dict schema)"
    using s c by (force simp: tcs consistent_schema_def)
  have "s \<noteq> []" using s ne by auto
  moreover have "s \<in> set (column_names t)" using s sub by auto
  ultimately show "s \<in> set (snd (matching L t schema))"
    unfolding matching_def using match_columns_claims[OF d' le1 k] by simp
qed

lemma required_score_one:
  assumes c: "consistent_schema schema"
    and sub: "set (required_columns schema) \<subseteq> set (snd (matching L t schema))"
  shows "required_score L t schema = 1"
proof -
  have "set (snd (matching L t schema)) \<inter> set (required_columns schema) = set (required_columns schema)"
    using sub by auto
  then have "required_matched L t schema = int (card (set (required_columns schema)))"
    using required_matched_card[OF c, of L t] by simp
  moreover have "card (set (required_columns schema)) = length (required_columns schema)"
    using c distinct_card[of "required_columns schema"] by (simp add: consistent_schema_def)
  ultimately show ?thesis by (simp add: required_score_def Let_def)
qed

subsection \<open>Two columns with one normalised name\<close>

lemma clash_matching:
  assumes "ts_columns schema = [c1, c2]" and "tc_name c1 \<noteq> tc_name c2" and "tc_name c1 \<noteq> []"
    and "normalize_column_name s = normalize_column_name (tc_name c1)"
    and "normalize_column_name s = normalize_column_name (tc_name c2)"
    and "column_names t = [s]"
  shows "matching L t schema = ([(s, tc_name c1)], [tc_name c1])"
proof -
  have d: "target_cols_dict schema = [(tc_name c1, c1), (tc_name c2, c2)]"
    using assms(1,2) by (simp add: target_cols_dict_def)
  have s1: "calculate_column_match_score L s (tc_name c1) cn ty sv = 1" for cn ty sv
    using assms(4) by (rule score_exact)
  have s2: "calculate_column_match_score L s (tc_name c2) cn ty sv = 1" for cn ty sv
    using assms(5) by (rule score_exact)
  show ?thesis
    using assms(3,6) by (simp add: matching_def d s1 s2 Let_def)
qed

subsection \<open>The generic customer schema\<close>

lemma generic_consistent: "consistent_schema GENERIC_CUSTOMER_SCHEMA"
  by (simp add: consistent_schema_def GENERIC_CUSTOMER_SCHEMA_def)

lemma generic_distinct:
  "distinct (map (\<lambda>col. normalize_column_name (tc_name col)) (ts_columns GENERIC_CUSTOMER_SCHEMA))"
  by code_simp

subsection \<open>The score of a table\<close>

text \<open>
  C8, as stated, fails. The two columns of \<open>clashing_schema\<close> have names that are
  the same once normalised, \<open>first_name\<close> (optional) and \<open>firstname\<close> (required). The
  one column of the table is named \<open>firstname\<close>, exactly as the required column,
  but it claims \<open>first_name\<close>, the first column of the schema with score 1: no
  required column is matched, the required score is 0 and the score of the table is
  0.4, whatever the text functions give. The same happens with a column named by the
  Kelvin sign before a required column named \<open>k\<close>.
\<close>

theorem clashing_names_counterexample:
  "consistent_schema clashing_schema
   \<and> required_columns clashing_schema = [''firstname'']
   \<and> column_names firstname_table = [''firstname'']
   \<and> (\<forall>L. matched_columns (match_table_to_schema L firstname_table clashing_schema)
              = [(''firstname'', ''first_name'')]
            \<and> required_score L firstname_table clashing_schema = 0
            \<and> match_score (match_table_to_schema L firstname_table clashing_schema) = 4 / 10)
   \<and> consistent_schema kelvin_schema
   \<and> (\<forall>L. required_score L k_table kelvin_schema = 0
            \<and> match_score (match_table_to_schema L k_table kelvin_schema) = 4 / 10)"
proof -
  have n: "normalize_column_name ''firstname'' = ''firstname''"
      "normalize_column_name ''first_name'' = ''firstname''"
      "normalize_column_name ''k'' = ''k''"
      "normalize_column_name [CHR 0xE2, CHR 0x84, CHR 0xAA] = ''k''"
    by code_simp+
  have c: "consistent_schema clashing_schema" "consistent_schema kelvin_schema"
    by (simp_all add: consistent_schema_def clashing_schema_def kelvin_schema_def)
  have m1: "matching L firstname_table clashing_schema = ([(''firstname'', ''first_name'')], [''first_name''])"
    for L
    using clash_matching[of clashing_schema
          "\<lparr>tc_name = ''first_name'', data_type = ''string'', required = False, common_source_names = []\<rparr>"
          "\<lparr>tc_name = ''firstname'', data_type = ''string'', required = True, common_source_names = []\<rparr>"
          "''firstname''" firstname_table L]
    by (simp add: clashing_schema_def firstname_table_def n del: normalize_column_name.simps)
  have m2: "matching L k_table kelvin_schema = ([(''k'', [CHR 0xE2, CHR 0x84, CHR 0xAA])], [[CHR 0xE2, CHR 0x84, CHR 0xAA]])"
    for L
    using clash_matching[of kelvin_schema
          "\<lparr>tc_name = [CHR 0xE2, CHR 0x84, CHR 0xAA], data_type = ''string'', required = False, common_source_names = []\<rparr>"
          "\<lparr>tc_name = ''k'', data_type = ''string'', required = True, common_source_names = []\<rparr>"
          "''k''" k_table L]
    by (simp add: kelvin_schema_def k_table_def n del: normalize_column_name.simps)
  have r1: "required_score L firstname_table clashing_schema = 0"
       "optional_score L firstname_table clashing_schema = 1" for L
    unfolding required_score_def optional_score_def required_matched_def m1
    by (simp_all add: clashing_schema_def)
  have r2: "required_score L k_table kelvin_schema = 0"
       "optional_score L k_table kelvin_schema = 1" for L
    unfolding required_score_def optional_score_def required_matched_def m2
    by (simp_all add: kelvin_schema_def)
  have a1: "required_columns clashing_schema = [''firstname'']"
      "column_names firstname_table = [''firstname'']"
    by (simp_all add: clashing_schema_def firstname_table_def)
  have mc1: "matched_columns (match_table_to_schema L firstname_table clashing_schema) =
               [(''firstname'', ''first_name'')]" for L
    by (simp add: match_table_to_schema_def Let_def m1)
  have ms1: "match_score (match_table_to_schema L firstname_table clashing_schema) = 4 / 10" for L
    by (simp add: match_table_to_schema_def Let_def r1)
  have ms2: "match_score (match_table_to_schema L k_table kelvin_schema) = 4 / 10" for L
    by (simp add: match_table_to_schema_def Let_def r2)
  show ?thesis
    using c a1 r1(1) r2(1) mc1 ms1 ms2 by simp
qed

text \<open>
  C8. For every consistent target schema, every detected table and every L
  ratio, the score of the table is 0.6 times the share of the required target
  columns that are matched plus 0.4 times the share of the optional target columns
  that are matched, a share being 1 when there is no such column. If moreover the
  names of the schema's columns stay different once normalised, the L ratio
  is at most 1, no required column has the empty name and every required column's
  name is the name of a column of the table, then the required score is 1 and the
  score of the table is at least 0.6.
\<close>

theorem table_match_score:
  assumes "consistent_schema schema"
  shows "match_score (match_table_to_schema L t schema) =
           spec_match_score
             (set (map snd (matched_columns (match_table_to_schema L t schema)))) schema
         \<and> (distinct (map (\<lambda>col. normalize_column_name (tc_name col)) (ts_columns schema)) \<and>
            (\<forall>a b. py_ratio L a b \<le> 1) \<and>
            [] \<notin> set (required_columns schema) \<and>
            set (required_columns schema) \<subseteq> set (column_names t)
            \<longrightarrow> required_score L t schema = 1 \<and>
                6 / 10 \<le> match_score (match_table_to_schema L t schema))"
proof -
  have dn: "distinct (map tc_name (ts_columns schema))"
    using assms by (simp add: consistent_schema_def)
  have ms: "match_score (match_table_to_schema L t schema) =
            6 / 10 * required_score L t schema + 4 / 10 * optional_score L t schema"
    by (simp add: match_table_to_schema_def Let_def)
  have mc: "map snd (matched_columns (match_table_to_schema L t schema)) =
            snd (matching L t schema)"
    using matching_invariant(1)[OF dn, of L t] by (simp add: match_table_to_schema_def Let_def)
  have first: "match_score (match_table_to_schema L t schema) =
           spec_match_score
             (set (map snd (matched_columns (match_table_to_schema L t schema)))) schema"
    unfolding mc ms by (rule score_refines[OF assms])
  have second: "required_score L t schema = 1 \<and>
                6 / 10 \<le> match_score (match_table_to_schema L t schema)"
    if h: "distinct (map (\<lambda>col. normalize_column_name (tc_name col)) (ts_columns schema))"
          "\<forall>a b. py_ratio L a b \<le> 1"
          "[] \<notin> set (required_columns schema)"
          "set (required_columns schema) \<subseteq> set (column_names t)"
  proof -
    have r1: "required_score L t schema = 1"
      using required_score_one[OF assms required_all_claimed[OF assms h]] .
    have "0 \<le> optional_score L t schema" by (rule optional_score_nonneg[OF assms])
    then show ?thesis using r1 ms by simp
  qed
  show ?thesis using first second by blast
qed

theorem table_match_score_witness:
  "match_score (match_table_to_schema ascii_text first_name_table GENERIC_CUSTOMER_SCHEMA) =
     spec_match_score
       (set (map snd (matched_columns
          (match_table_to_schema ascii_text first_name_table GENERIC_CUSTOMER_SCHEMA))))
       GENERIC_CUSTOMER_SCHEMA
   \<and> required_score ascii_text first_name_table GENERIC_CUSTOMER_SCHEMA = 1
   \<and> 6 / 10 \<le> match_score (match_table_to_schema ascii_text first_name_table GENERIC_CUSTOMER_SCHEMA)"
proof -
  have a: "\<forall>a b. py_ratio ascii_text a b \<le> 1" by (simp add: ascii_text_def)
  have b: "[] \<notin> set (required_columns GENERIC_CUSTOMER_SCHEMA)"
    by (simp add: GENERIC_CUSTOMER_SCHEMA_def)
  have c: "set (required_columns GENERIC_CUSTOMER_SCHEMA) \<subseteq> set (column_names first_name_table)"
    by (simp add: GENERIC_CUSTOMER_SCHEMA_def first_name_table_def)
  show ?thesis
    using table_match_score[OF generic_consistent, of ascii_text first_name_table]
      generic_distinct a b c by blast
qed

end
